theory Spec2Isabelle
  imports Main
begin

section \<open>JavaScript values and string operations used by the handlers\<close>

text \<open>
  A field of a JSON document that the handlers read through \<^verbatim>\<open>||\<close>, \<^verbatim>\<open>?.\<close> or a
  template literal is absent (\<open>Undefined\<close>), \<^verbatim>\<open>null\<close> or a string.
\<close>

datatype jsval = Undefined | Null | Str string

fun truthy :: "jsval \<Rightarrow> bool" where
  "truthy (Str s) = (s \<noteq> [])"
| "truthy Undefined = False"
| "truthy Null = False"

text \<open>\<^verbatim>\<open>a || b\<close>\<close>

definition js_or :: "jsval \<Rightarrow> jsval \<Rightarrow> jsval" where
  "js_or a b = (if truthy a then a else b)"

text \<open>\<^verbatim>\<open>`${v}`\<close>\<close>

fun template :: "jsval \<Rightarrow> string" where
  "template Undefined = ''undefined''"
| "template Null = ''null''"
| "template (Str s) = s"

text \<open>
  \<^verbatim>\<open>s.split(c)\<close> for a one-character separator. The array it returns is never empty, so
  the result is its element 0 together with the list of the elements from index 1 on.
\<close>

fun split_char :: "char \<Rightarrow> string \<Rightarrow> string \<times> string list" where
  "split_char c [] = ([], [])"
| "split_char c (x # xs) =
     (let (h, t) = split_char c xs
      in if x = c then ([], h # t) else (x # h, t))"

text \<open>\<^verbatim>\<open>s.split('@')[0]\<close> and \<^verbatim>\<open>s.split('@')[1]\<close>; the latter is undefined without a separator.\<close>

definition split_at_0 :: "string \<Rightarrow> string" where
  "split_at_0 s = fst (split_char CHR ''@'' s)"

definition split_at_1 :: "string \<Rightarrow> jsval" where
  "split_at_1 s = (case snd (split_char CHR ''@'' s) of [] \<Rightarrow> Undefined | d # _ \<Rightarrow> Str d)"

text \<open>\<^verbatim>\<open>toLowerCase\<close> on the ASCII letters, \<^verbatim>\<open>endsWith\<close>, \<^verbatim>\<open>startsWith\<close>.\<close>

definition lower_char :: "char \<Rightarrow> char" where
  "lower_char c =
     (case map_of (zip ''ABCDEFGHIJKLMNOPQRSTUVWXYZ'' ''abcdefghijklmnopqrstuvwxyz'') c of
        Some l \<Rightarrow> l
      | None \<Rightarrow> c)"

definition toLowerCase :: "string \<Rightarrow> string" where
  "toLowerCase s = map lower_char s"

definition endsWith :: "string \<Rightarrow> string \<Rightarrow> bool" where
  "endsWith s suf = (take (length suf) (rev s) = rev suf)"

definition startsWith :: "string \<Rightarrow> string \<Rightarrow> bool" where
  "startsWith s pre = (take (length pre) s = pre)"

text \<open>\<^verbatim>\<open>s.replace(pat, rep)\<close> with a string pattern: the first occurrence only.\<close>

fun replace_first :: "string \<Rightarrow> string \<Rightarrow> string \<Rightarrow> string" where
  "replace_first pat rep [] = (if pat = [] then rep else [])"
| "replace_first pat rep (x # xs) =
     (if take (length pat) (x # xs) = pat then rep @ drop (length pat) (x # xs)
      else x # replace_first pat rep xs)"

text \<open>A number inside a template literal: its decimal digits.\<close>

fun string_of_nat :: "nat \<Rightarrow> string" where
  "string_of_nat n =
     (if n < 10 then [''0123456789'' ! n]
      else string_of_nat (n div 10) @ [''0123456789'' ! (n mod 10)])"

declare string_of_nat.simps [simp del]

section \<open>Data of a request\<close>

text \<open>
  An attachment object of \<^verbatim>\<open>emailData.Attachments\<close>, and likewise an entry of the
  \<^verbatim>\<open>Attachments\<close> of the outgoing message. \<open>Content\<close> of an outgoing entry is whatever the
  watermarking response held, hence a \<open>jsval\<close>. The \<^verbatim>\<open>Name\<close> and the \<^verbatim>\<open>ContentType\<close> of an
  attachment object are taken to be strings, as the mail provider sends them.
\<close>

record attachment =
  Name :: string
  Content :: jsval
  ContentType :: string

text \<open>
  The webhook body. \<open>ToFull_0_Email\<close> is the value of \<^verbatim>\<open>emailData.ToFull?.[0]?.Email\<close>,
  \<open>FromFull_Email\<close> of \<^verbatim>\<open>emailData.FromFull?.Email\<close>, \<open>FromFull_Name\<close> of
  \<^verbatim>\<open>emailData.FromFull?.Name\<close>; \<open>Attachments\<close> is \<^verbatim>\<open>emailData.Attachments || []\<close>. An entry
  of that array is an attachment object or, as JSON allows, \<^verbatim>\<open>null\<close> (\<open>None\<close>): reading
  \<^verbatim>\<open>attachment.Name\<close> of a \<^verbatim>\<open>null\<close> entry throws a \<^verbatim>\<open>TypeError\<close>.
\<close>

record emailData =
  ToFull_0_Email :: jsval
  To :: jsval
  From :: jsval
  FromFull_Email :: jsval
  FromName :: jsval
  FromFull_Name :: jsval
  Subject :: jsval
  TextBody :: jsval
  HtmlBody :: jsval
  Attachments :: "attachment option list"

text \<open>A row of the table \<^verbatim>\<open>email_gateway_funders\<close>.\<close>

record funder =
  funder_id :: string
  active :: bool
  company_name :: string
  user_email :: string
  destination_email :: string
  logo_storage_path :: string

text \<open>The argument of \<^verbatim>\<open>postmarkClient.sendEmail\<close>; \<open>msg_ReplyTo\<close> is \<open>Undefined\<close> when the key is not set.\<close>

record message =
  msg_From :: jsval
  msg_ReplyTo :: jsval
  msg_To :: string
  msg_Subject :: string
  msg_TextBody :: string
  msg_Attachments :: "attachment list"

text \<open>
  The HTTP response: \<^verbatim>\<open>res.status(n).json(body)\<close>; \<^verbatim>\<open>res.json\<close> alone is status 200. The bodies
  are \<^verbatim>\<open>{message}\<close>, \<^verbatim>\<open>{error}\<close> and \<^verbatim>\<open>{success: true, message, <key>: <count>}\<close>, the key being
  \<^verbatim>\<open>attachments\<close> or \<^verbatim>\<open>files_processed\<close>.
\<close>

datatype body =
    MessageBody string
  | ErrorBody string
  | SuccessBody string string nat

record response =
  http_status :: nat
  http_body :: body

section \<open>Collaborators\<close>

text \<open>
  Every call to a collaborator is recorded, in the order the handler makes them:
  \<^item> \<open>DirectoryQuery k\<close>: the query of \<^verbatim>\<open>email_gateway_funders\<close> for \<^verbatim>\<open>funder_id\<close> \<open>k\<close> and
    \<^verbatim>\<open>active = true\<close>;
  \<^item> \<open>GetPublicUrl bucket path\<close>, \<open>StorageRemove bucket path\<close>, and
    \<open>StorageUpload bucket path bytes contentType accepted\<close>, which carries whether the
    storage service accepted the object;
  \<^item> the three requests to \<^verbatim>\<open>FUNDER_API_URL\<close>, with the fields of their payload:
    \<open>WatermarkInline funderId logoUrl brokerDomain fileName fileContent\<close>,
    \<open>WatermarkByUrl user_email file_url broker_name\<close> and
    \<open>WatermarkBatch user_email broker_name files\<close>, a file being its name and data;
  \<^item> \<open>Sleep ms\<close>: the timer of the poll loop; \<open>JobStatus url\<close>: the status request;
  \<^item> \<open>Download url\<close>: the request for a result file; \<open>SendEmail m\<close>: the outgoing message.
\<close>

datatype event =
    DirectoryQuery string
  | GetPublicUrl string string
  | StorageUpload string string string string bool
  | StorageRemove string string
  | WatermarkInline string string jsval string jsval
  | WatermarkByUrl string string string
  | WatermarkBatch string jsval "(string \<times> jsval) list"
  | Sleep nat
  | JobStatus string
  | Download jsval
  | SendEmail message

text \<open>
  What \<^verbatim>\<open>fetch(FUNDER_API_URL, ...)\<close> gives: the promise rejects; the response is not ok
  (status, status text, body text); the body is not a JSON object; or the JSON object,
  of which the handlers read \<^verbatim>\<open>content\<close>, \<^verbatim>\<open>file_url\<close> and \<^verbatim>\<open>job_id\<close>.
\<close>

datatype api_response =
    Rejected string
  | NotOk nat string string
  | BodyUnreadable string
  | Body (content: jsval) (file_url: jsval) (job_id: jsval)

text \<open>
  What the job-status request gives: the promise rejects, the response is not ok, the body
  is not a JSON object, or the JSON object with \<^verbatim>\<open>status\<close>, \<^verbatim>\<open>download_url\<close>, \<^verbatim>\<open>error_message\<close>.
\<close>

datatype status_response =
    StatusRejected string
  | StatusNotOk
  | StatusUnreadable string
  | StatusBody (status: jsval) (download_url: jsval) (error_message: jsval)

text \<open>What fetching a result file gives: a rejection, or ok flag, status text and the bytes.\<close>

datatype download_response =
    DownloadRejected string
  | DownloadResponse bool string string

text \<open>An entry of \<^verbatim>\<open>zip.getEntries()\<close>, \<open>getData\<close> being the bytes of \<^verbatim>\<open>entry.getData()\<close>.\<close>

record zip_entry =
  entryName :: string
  isDirectory :: bool
  getData :: string

text \<open>
  The environment of one request: the directory table, the configuration, and the answer
  of each collaborator to each request. The per-attachment calls are indexed by the
  position of the attachment in the loop, the status polls by the value of \<^verbatim>\<open>attempts\<close>,
  so that a service may answer the same request differently over time.
  \<open>directory_error\<close> says that the directory answers with an error whatever its rows;
  \<open>upload_error\<close> and \<open>sendEmail_error\<close> give the error of a refused upload and of a
  rejected send, \<open>None\<close> when the call succeeds.
  \<open>base64_decode\<close> is \<^verbatim>\<open>Buffer.from(s, 'base64')\<close> and \<open>base64_encode\<close> is
  \<^verbatim>\<open>buf.toString('base64')\<close>, both taken as parameters; \<open>AdmZip\<close> is the archive
  library, which throws on a buffer that is no archive.
\<close>

record world =
  email_gateway_funders :: "funder list"
  directory_error :: bool
  SUPABASE_URL :: string
  FUNDER_API_URL :: string
  publicUrl :: "string \<Rightarrow> string \<Rightarrow> string"
  Date_now :: "nat \<Rightarrow> nat"
  upload_error :: "nat \<Rightarrow> string \<Rightarrow> string option"
  funder_api :: "nat \<Rightarrow> event \<Rightarrow> api_response"
  job_status :: "nat \<Rightarrow> string \<Rightarrow> status_response"
  fetch_file :: "nat \<Rightarrow> jsval \<Rightarrow> download_response"
  AdmZip :: "string \<Rightarrow> string + zip_entry list"
  base64_decode :: "string \<Rightarrow> string"
  base64_encode :: "string \<Rightarrow> string"
  sendEmail_error :: "message \<Rightarrow> string option"

section \<open>Tenant lookup, common to the three handlers\<close>

text \<open>\<^verbatim>\<open>emailData.ToFull?.[0]?.Email || emailData.To\<close>\<close>

definition recipientEmail :: "emailData \<Rightarrow> jsval" where
  "recipientEmail e = js_or (ToFull_0_Email e) (To e)"

text \<open>\<^verbatim>\<open>emailData.From || emailData.FromFull?.Email\<close>\<close>

definition senderEmail :: "emailData \<Rightarrow> jsval" where
  "senderEmail e = js_or (From e) (FromFull_Email e)"

text \<open>
  \<^verbatim>\<open>.from('email_gateway_funders').select('*').eq('funder_id', funderId).eq('active', true).single()\<close>:
  \<open>single\<close> is an error unless exactly one row is left.
\<close>

definition eq_funder_id :: "string \<Rightarrow> funder list \<Rightarrow> funder list" where
  "eq_funder_id k rows = filter (\<lambda>r. funder_id r = k) rows"

definition eq_active :: "bool \<Rightarrow> funder list \<Rightarrow> funder list" where
  "eq_active b rows = filter (\<lambda>r. active r = b) rows"

definition single :: "funder list \<Rightarrow> funder option" where
  "single rows = (case rows of [r] \<Rightarrow> Some r | _ \<Rightarrow> None)"

text \<open>The value of \<^verbatim>\<open>funder\<close> when \<^verbatim>\<open>funderError || !funder\<close> is false, \<open>None\<close> when it is true.\<close>

definition lookup_funder :: "world \<Rightarrow> string \<Rightarrow> funder option" where
  "lookup_funder w funderId =
     (if directory_error w then None
      else single (eq_active True (eq_funder_id funderId (email_gateway_funders w))))"

definition internal_server_error :: response where
  "internal_server_error = \<lparr>http_status = 500, http_body = ErrorBody ''Internal server error''\<rparr>"

definition funder_not_found :: response where
  "funder_not_found = \<lparr>http_status = 404, http_body = ErrorBody ''Funder not found''\<rparr>"

definition no_attachments :: response where
  "no_attachments = \<lparr>http_status = 200, http_body = MessageBody ''No attachments to process''\<rparr>"

definition all_failed :: response where
  "all_failed =
     \<lparr>http_status = 500, http_body = ErrorBody ''Watermarking failed for all attachments''\<rparr>"

section \<open>index.js: one inline watermarking call per attachment\<close>

text \<open>
  The body of the \<^verbatim>\<open>for\<close> loop for the attachment at position \<open>i\<close>: the pushed entry, or
  \<open>None\<close> when the \<^verbatim>\<open>catch\<close> of the loop body swallowed an error.
\<close>

definition watermark_inline ::
  "world \<Rightarrow> funder \<Rightarrow> string \<Rightarrow> jsval \<Rightarrow> nat \<Rightarrow> attachment \<Rightarrow> attachment option \<times> event list" where
  "watermark_inline w f funderId brokerDomain i a =
     (let logoUrl = publicUrl w ''gateway-logos'' (logo_storage_path f);
          call = WatermarkInline funderId logoUrl brokerDomain (Name a) (Content a);
          evs = [GetPublicUrl ''gateway-logos'' (logo_storage_path f), call]
      in case funder_api w i call of
           Rejected m \<Rightarrow> (None, evs)
         | NotOk st stText txt \<Rightarrow> (None, evs)
         | BodyUnreadable m \<Rightarrow> (None, evs)
         | Body c u j \<Rightarrow>
             (Some \<lparr>Name = Name a, Content = c, ContentType = ContentType a\<rparr>, evs))"

text \<open>
  The \<^verbatim>\<open>for\<close> loop from position \<open>i\<close> on: whether an error left the loop, the entries pushed
  on \<^verbatim>\<open>watermarkedAttachments\<close>, and the calls made. On a \<^verbatim>\<open>null\<close> entry \<^verbatim>\<open>getPublicUrl\<close> is
  called, \<^verbatim>\<open>attachment.Name\<close> in the payload throws, and the \<^verbatim>\<open>catch\<close> of the loop body, which
  itself evaluates \<^verbatim>\<open>attachment.Name\<close> for its log line, throws again: that second error leaves
  the loop, and the rest of the list is not visited.
\<close>

fun inline_loop ::
  "world \<Rightarrow> funder \<Rightarrow> string \<Rightarrow> jsval \<Rightarrow> nat \<Rightarrow> attachment option list
     \<Rightarrow> bool \<times> attachment list \<times> event list" where
  "inline_loop w f funderId brokerDomain i [] = (False, [], [])"
| "inline_loop w f funderId brokerDomain i (None # as) =
     (True, [], [GetPublicUrl ''gateway-logos'' (logo_storage_path f)])"
| "inline_loop w f funderId brokerDomain i (Some a # as) =
     (let (r, evs) = watermark_inline w f funderId brokerDomain i a;
          (thrown, rs, evs') = inline_loop w f funderId brokerDomain (Suc i) as
      in (thrown, (case r of None \<Rightarrow> rs | Some x \<Rightarrow> x # rs), evs @ evs'))"

definition inline_message :: "funder \<Rightarrow> jsval \<Rightarrow> attachment list \<Rightarrow> message" where
  "inline_message f sender outs =
     \<lparr>msg_From = sender, msg_ReplyTo = Undefined, msg_To = destination_email f,
      msg_Subject = ''New Submission'', msg_TextBody = '''', msg_Attachments = outs\<rparr>"

text \<open>
  The handler of \<^verbatim>\<open>POST /webhook/inbound\<close> in index.js: the response and the collaborator
  calls made. A \<^verbatim>\<open>TypeError\<close> of \<^verbatim>\<open>.split\<close> on a value that is no string, an error that
  leaves the loop and a rejected \<^verbatim>\<open>sendEmail\<close> end in the outer \<^verbatim>\<open>catch\<close>; after an error that
  left the loop the entries pushed so far are dropped and nothing is mailed.
\<close>

definition webhook_inbound :: "world \<Rightarrow> emailData \<Rightarrow> response \<times> event list" where
  "webhook_inbound w e =
     (case recipientEmail e of
        Undefined \<Rightarrow> (internal_server_error, [])
      | Null \<Rightarrow> (internal_server_error, [])
      | Str rcpt \<Rightarrow>
          (let funderId = split_at_0 rcpt in
           case lookup_funder w funderId of
             None \<Rightarrow> (funder_not_found, [DirectoryQuery funderId])
           | Some f \<Rightarrow>
               (case senderEmail e of
                  Undefined \<Rightarrow> (internal_server_error, [DirectoryQuery funderId])
                | Null \<Rightarrow> (internal_server_error, [DirectoryQuery funderId])
                | Str sender \<Rightarrow>
                    (let brokerDomain = split_at_1 sender in
                     if length (Attachments e) = 0
                     then (no_attachments, [DirectoryQuery funderId])
                     else
                       (let (thrown, outs, evs) =
                              inline_loop w f funderId brokerDomain 0 (Attachments e) in
                        if thrown then (internal_server_error, DirectoryQuery funderId # evs)
                        else if length outs = 0
                        then (all_failed, DirectoryQuery funderId # evs)
                        else
                          (let m = inline_message f (Str sender) outs;
                               tr = DirectoryQuery funderId # evs @ [SendEmail m]
                           in case sendEmail_error w m of
                                Some err \<Rightarrow> (internal_server_error, tr)
                              | None \<Rightarrow>
                                  (\<lparr>http_status = 200,
                                    http_body = SuccessBody ''Email processed and forwarded''
                                                  ''attachments'' (length outs)\<rparr>, tr)))))))"

section \<open>The staging handler: each document is uploaded, watermarked by URL, then removed\<close>

text \<open>\<^verbatim>\<open>emailData.FromName || emailData.FromFull?.Name || senderEmail.split('@')[0]\<close>;
  \<open>None\<close> is the \<^verbatim>\<open>TypeError\<close> of \<^verbatim>\<open>.split\<close> on a sender that is no string.\<close>

definition senderName :: "emailData \<Rightarrow> string option" where
  "senderName e =
     (case js_or (FromName e) (FromFull_Name e) of
        Str n \<Rightarrow>
          (if n \<noteq> [] then Some n
           else (case senderEmail e of Str s \<Rightarrow> Some (split_at_0 s) | Undefined \<Rightarrow> None | Null \<Rightarrow> None))
      | Undefined \<Rightarrow> (case senderEmail e of Str s \<Rightarrow> Some (split_at_0 s) | Undefined \<Rightarrow> None | Null \<Rightarrow> None)
      | Null \<Rightarrow> (case senderEmail e of Str s \<Rightarrow> Some (split_at_0 s) | Undefined \<Rightarrow> None | Null \<Rightarrow> None))"

text \<open>\<^verbatim>\<open>attachment.Name.toLowerCase().endsWith('.pdf')\<close>\<close>

definition is_pdf :: "string \<Rightarrow> bool" where
  "is_pdf name = endsWith (toLowerCase name) ''.pdf''"

text \<open>The name of the temporary object of the attachment at position \<open>i\<close>:
  \<^verbatim>\<open>`temp/${Date.now()}-${attachment.Name}`\<close>.\<close>

definition temp_file_name :: "world \<Rightarrow> nat \<Rightarrow> attachment \<Rightarrow> string" where
  "temp_file_name w i a = ''temp/'' @ string_of_nat (Date_now w i) @ ''-'' @ Name a"

text \<open>\<^verbatim>\<open>fileUrl\<close>: the public URL of the temporary object, made absolute when it is not.\<close>

definition absolute_url :: "world \<Rightarrow> string \<Rightarrow> string" where
  "absolute_url w path =
     (let url = publicUrl w ''funder-logos'' path
      in if \<not> startsWith url ''http''
         then SUPABASE_URL w @ ''/storage/v1/object/public/funder-logos/'' @ path
         else url)"

text \<open>
  The body of the \<^verbatim>\<open>for\<close> loop for the attachment at position \<open>i\<close>: the pushed entry (if
  any), the name pushed on \<^verbatim>\<open>tempFiles\<close> (if any), and the calls made. For an attachment
  object every error thrown inside is swallowed by the \<^verbatim>\<open>catch\<close> of the loop body;
  \<^verbatim>\<open>Buffer.from\<close> throws on a content that is no string. The \<^verbatim>\<open>ok\<close> flag of the download is
  not looked at: the body of any response is encoded and pushed.
\<close>

definition watermark_staged ::
  "world \<Rightarrow> funder \<Rightarrow> string \<Rightarrow> nat \<Rightarrow> attachment
     \<Rightarrow> attachment option \<times> string option \<times> event list" where
  "watermark_staged w f sname i a =
     (if \<not> is_pdf (Name a) then (None, None, [])
      else
        (let tempFileName = temp_file_name w i a in
         case Content a of
           Undefined \<Rightarrow> (None, None, [])
         | Null \<Rightarrow> (None, None, [])
         | Str c \<Rightarrow>
             (let fileBuffer = base64_decode w c;
                  uploadError = upload_error w i tempFileName;
                  up = StorageUpload ''funder-logos'' tempFileName fileBuffer (ContentType a)
                         (uploadError = None)
              in case uploadError of
                   Some m \<Rightarrow> (None, None, [up])
                 | None \<Rightarrow>
                     (let fileUrl = absolute_url w tempFileName;
                          call = WatermarkByUrl (user_email f) fileUrl sname;
                          evs = [up, GetPublicUrl ''funder-logos'' tempFileName, call]
                      in case funder_api w i call of
                           Rejected m \<Rightarrow> (None, Some tempFileName, evs)
                         | NotOk st stText txt \<Rightarrow> (None, Some tempFileName, evs)
                         | BodyUnreadable m \<Rightarrow> (None, Some tempFileName, evs)
                         | Body c' u j \<Rightarrow>
                             (case fetch_file w i u of
                                DownloadRejected m \<Rightarrow>
                                  (None, Some tempFileName, evs @ [Download u])
                              | DownloadResponse ok stText bytes \<Rightarrow>
                                  (Some \<lparr>Name = Name a, Content = Str (base64_encode w bytes),
                                         ContentType = ''application/pdf''\<rparr>,
                                   Some tempFileName, evs @ [Download u]))))))"

text \<open>
  The \<^verbatim>\<open>for\<close> loop from position \<open>i\<close> on: whether an error left the loop,
  \<^verbatim>\<open>watermarkedAttachments\<close>, \<^verbatim>\<open>tempFiles\<close> and the calls made. On a \<^verbatim>\<open>null\<close> entry
  \<^verbatim>\<open>attachment.Name.toLowerCase()\<close> throws before any call, and the \<^verbatim>\<open>catch\<close> of the loop body,
  which itself evaluates \<^verbatim>\<open>attachment.Name\<close> for its log line, throws again: that second error
  leaves the loop, and the rest of the list is not visited.
\<close>

fun staged_loop ::
  "world \<Rightarrow> funder \<Rightarrow> string \<Rightarrow> nat \<Rightarrow> attachment option list
     \<Rightarrow> bool \<times> attachment list \<times> string list \<times> event list" where
  "staged_loop w f sname i [] = (False, [], [], [])"
| "staged_loop w f sname i (None # as) = (True, [], [], [])"
| "staged_loop w f sname i (Some a # as) =
     (let (r, t, evs) = watermark_staged w f sname i a;
          (thrown, rs, ts, evs') = staged_loop w f sname (Suc i) as
      in (thrown,
          (case r of None \<Rightarrow> rs | Some x \<Rightarrow> x # rs),
          (case t of None \<Rightarrow> ts | Some p \<Rightarrow> p # ts),
          evs @ evs'))"

text \<open>The clean-up loop, which follows the \<^verbatim>\<open>for\<close> loop; an error of \<^verbatim>\<open>remove\<close> is caught and
  logged.\<close>

definition cleanup :: "string list \<Rightarrow> event list" where
  "cleanup tempFiles = map (\<lambda>tempFile. StorageRemove ''funder-logos'' tempFile) tempFiles"

definition staged_message :: "funder \<Rightarrow> string \<Rightarrow> jsval \<Rightarrow> attachment list \<Rightarrow> message" where
  "staged_message f sname sender outs =
     \<lparr>msg_From = Str ''gateway@aquamark.io'', msg_ReplyTo = sender,
      msg_To = destination_email f,
      msg_Subject = ''New Submission - '' @ company_name f,
      msg_TextBody = ''Submitted by: '' @ sname @ '' ('' @ template sender @ '')'',
      msg_Attachments = outs\<rparr>"

text \<open>
  The handler of \<^verbatim>\<open>POST /webhook/inbound\<close> of the staging variant. An error that leaves the
  \<^verbatim>\<open>for\<close> loop goes straight to the outer \<^verbatim>\<open>catch\<close>: the clean-up loop, which is ordinary code
  after the \<^verbatim>\<open>for\<close> loop, is not run, and nothing is mailed.
\<close>

definition webhook_inbound_staged :: "world \<Rightarrow> emailData \<Rightarrow> response \<times> event list" where
  "webhook_inbound_staged w e =
     (case recipientEmail e of
        Undefined \<Rightarrow> (internal_server_error, [])
      | Null \<Rightarrow> (internal_server_error, [])
      | Str rcpt \<Rightarrow>
          (let funderId = split_at_0 rcpt in
           case lookup_funder w funderId of
             None \<Rightarrow> (funder_not_found, [DirectoryQuery funderId])
           | Some f \<Rightarrow>
               (case senderName e of
                  None \<Rightarrow> (internal_server_error, [DirectoryQuery funderId])
                | Some sname \<Rightarrow>
                    (if length (Attachments e) = 0
                     then (no_attachments, [DirectoryQuery funderId])
                     else
                       (let (thrown, outs, tempFiles, evs) =
                              staged_loop w f sname 0 (Attachments e)
                        in if thrown then (internal_server_error, DirectoryQuery funderId # evs)
                           else
                             (let evs' = DirectoryQuery funderId # evs @ cleanup tempFiles
                              in if length outs = 0 then (all_failed, evs')
                                 else
                                   (let m = staged_message f sname (senderEmail e) outs;
                                        tr = evs' @ [SendEmail m]
                                    in case sendEmail_error w m of
                                         Some err \<Rightarrow> (internal_server_error, tr)
                                       | None \<Rightarrow>
                                           (\<lparr>http_status = 200,
                                             http_body =
                                               SuccessBody ''Email processed and forwarded''
                                                 ''attachments'' (length outs)\<rparr>, tr))))))))"

section \<open>The asynchronous handler: one batch job, polled, whose result is an archive\<close>

text \<open>\<^verbatim>\<open>v || 'default'\<close> with a string default.\<close>

definition str_or :: "jsval \<Rightarrow> string \<Rightarrow> string" where
  "str_or v d = (case js_or v (Str d) of Str s \<Rightarrow> s | Undefined \<Rightarrow> d | Null \<Rightarrow> d)"

text \<open>
  The \<^verbatim>\<open>while (attempts < 15 && !jobCompleted)\<close> loop on its three variables. \<open>Inl\<close> is an
  error thrown out of the loop, \<open>Inr\<close> the values of \<^verbatim>\<open>jobCompleted\<close> and \<^verbatim>\<open>downloadUrl\<close> after it.
\<close>

function poll_loop ::
  "world \<Rightarrow> string \<Rightarrow> nat \<Rightarrow> bool \<Rightarrow> jsval \<Rightarrow> (string + bool \<times> jsval) \<times> event list" where
  "poll_loop w url attempts jobCompleted downloadUrl =
     (if attempts < 15 \<and> \<not> jobCompleted then
        (case job_status w attempts url of
           StatusRejected m \<Rightarrow> (Inl m, [Sleep 2000, JobStatus url])
         | StatusUnreadable m \<Rightarrow> (Inl m, [Sleep 2000, JobStatus url])
         | StatusNotOk \<Rightarrow>
             (let (r, evs) = poll_loop w url (attempts + 1) jobCompleted downloadUrl
              in (r, [Sleep 2000, JobStatus url] @ evs))
         | StatusBody st dl em \<Rightarrow>
             (if st = Str ''completed'' then
                (let (r, evs) = poll_loop w url (attempts + 1) True dl
                 in (r, [Sleep 2000, JobStatus url] @ evs))
              else if st = Str ''failed'' then
                (Inl (''Watermarking job failed: '' @ template em), [Sleep 2000, JobStatus url])
              else
                (let (r, evs) = poll_loop w url (attempts + 1) jobCompleted downloadUrl
                 in (r, [Sleep 2000, JobStatus url] @ evs))))
      else (Inr (jobCompleted, downloadUrl), []))"
  by pat_completeness auto
termination
  by (relation "measure (\<lambda>(w, url, attempts, jobCompleted, downloadUrl). 15 - attempts)") auto

declare poll_loop.simps [simp del]

text \<open>The filter and map over \<^verbatim>\<open>zip.getEntries()\<close>.\<close>

definition extract_pdfs :: "world \<Rightarrow> zip_entry list \<Rightarrow> attachment list" where
  "extract_pdfs w zipEntries =
     map (\<lambda>entry. \<lparr>Name = entryName entry, Content = Str (base64_encode w (getData entry)),
                   ContentType = ''application/pdf''\<rparr>)
       (filter (\<lambda>entry. \<not> isDirectory entry \<and> is_pdf (entryName entry)) zipEntries)"

definition batch_message :: "funder \<Rightarrow> emailData \<Rightarrow> attachment list \<Rightarrow> message" where
  "batch_message f e outs =
     \<lparr>msg_From = Str ''Aquamark <gateway@aquamark.io>'', msg_ReplyTo = senderEmail e,
      msg_To = destination_email f,
      msg_Subject = str_or (Subject e) ''New Submission'',
      msg_TextBody = str_or (js_or (TextBody e) (HtmlBody e)) '''',
      msg_Attachments = outs\<rparr>"

text \<open>From the download on: \<open>Inl\<close> is the message of a thrown error.\<close>

definition download_and_send ::
  "world \<Rightarrow> funder \<Rightarrow> emailData \<Rightarrow> nat \<Rightarrow> jsval \<Rightarrow> (string + response) \<times> event list" where
  "download_and_send w f e nfiles downloadUrl =
     (case fetch_file w 0 downloadUrl of
        DownloadRejected m \<Rightarrow> (Inl m, [Download downloadUrl])
      | DownloadResponse ok stText bytes \<Rightarrow>
          (if \<not> ok then (Inl (''Failed to download watermarked file: '' @ stText),
                         [Download downloadUrl])
           else
             (case AdmZip w bytes of
                Inl m \<Rightarrow> (Inl m, [Download downloadUrl])
              | Inr zipEntries \<Rightarrow>
                  (let outs = extract_pdfs w zipEntries in
                   if length outs = 0
                   then (Inl ''No PDF files found in watermarked ZIP'', [Download downloadUrl])
                   else
                     (let m = batch_message f e outs in
                      case sendEmail_error w m of
                        Some err \<Rightarrow> (Inl err, [Download downloadUrl, SendEmail m])
                      | None \<Rightarrow>
                          (Inr \<lparr>http_status = 200,
                                http_body = SuccessBody ''Email processed and forwarded''
                                              ''files_processed'' nfiles\<rparr>,
                           [Download downloadUrl, SendEmail m]))))))"

text \<open>The request that submits the batch, and the URL of the status requests.\<close>

definition submit_call :: "funder \<Rightarrow> jsval \<Rightarrow> attachment list \<Rightarrow> event" where
  "submit_call f brokerDomain pdfAttachments =
     WatermarkBatch (user_email f) brokerDomain (map (\<lambda>att. (Name att, Content att)) pdfAttachments)"

definition job_status_url :: "world \<Rightarrow> jsval \<Rightarrow> string" where
  "job_status_url w jobId =
     replace_first ''/watermark-funder-broker'' '''' (FUNDER_API_URL w)
       @ ''/job-status/'' @ template jobId"

text \<open>The inner \<^verbatim>\<open>try\<close> block; \<open>length pdfAttachments\<close> is \<^verbatim>\<open>files.length\<close>.\<close>

definition process_batch ::
  "world \<Rightarrow> funder \<Rightarrow> emailData \<Rightarrow> jsval \<Rightarrow> attachment list \<Rightarrow> (string + response) \<times> event list" where
  "process_batch w f e brokerDomain pdfAttachments =
     (let call = submit_call f brokerDomain pdfAttachments
      in case funder_api w 0 call of
           Rejected m \<Rightarrow> (Inl m, [call])
         | NotOk st stText txt \<Rightarrow>
             (Inl (''Watermarking API failed ('' @ string_of_nat st @ ''): '' @ txt), [call])
         | BodyUnreadable m \<Rightarrow> (Inl m, [call])
         | Body c u jobId \<Rightarrow>
             (case poll_loop w (job_status_url w jobId) 0 False Null of
                (Inl m, evs) \<Rightarrow> (Inl m, call # evs)
              | (Inr (jobCompleted, downloadUrl), evs) \<Rightarrow>
                  (if \<not> jobCompleted then (Inl ''Watermarking job timed out'', call # evs)
                   else
                     (let (r, evs') =
                            download_and_send w f e (length pdfAttachments) downloadUrl
                      in (r, call # evs @ evs')))))"

text \<open>The response of the \<^verbatim>\<open>catch\<close> of the inner \<^verbatim>\<open>try\<close> block.\<close>

definition processing_failed :: "string \<Rightarrow> response" where
  "processing_failed m =
     \<lparr>http_status = 500, http_body = ErrorBody (''Processing failed: '' @ m)\<rparr>"

text \<open>
  \<^verbatim>\<open>attachments.filter(att => att.Name.toLowerCase().endsWith('.pdf'))\<close>: the entries whose
  name ends in \<^verbatim>\<open>.pdf\<close>, or \<open>None\<close> when the callback throws, which it does on a \<^verbatim>\<open>null\<close> entry.
\<close>

fun filter_pdf :: "attachment option list \<Rightarrow> attachment list option" where
  "filter_pdf [] = Some []"
| "filter_pdf (None # as) = None"
| "filter_pdf (Some att # as) =
     (case filter_pdf as of
        None \<Rightarrow> None
      | Some pdfs \<Rightarrow> Some (if is_pdf (Name att) then att # pdfs else pdfs))"

text \<open>
  The handler of \<^verbatim>\<open>POST /webhook/inbound\<close> of the asynchronous variant. The filter runs
  outside the inner \<^verbatim>\<open>try\<close> block: an error of its callback ends in the outer \<^verbatim>\<open>catch\<close>.
\<close>

definition webhook_inbound_async :: "world \<Rightarrow> emailData \<Rightarrow> response \<times> event list" where
  "webhook_inbound_async w e =
     (case recipientEmail e of
        Undefined \<Rightarrow> (internal_server_error, [])
      | Null \<Rightarrow> (internal_server_error, [])
      | Str rcpt \<Rightarrow>
          (let funderId = split_at_0 rcpt in
           case lookup_funder w funderId of
             None \<Rightarrow> (funder_not_found, [DirectoryQuery funderId])
           | Some f \<Rightarrow>
               (case senderEmail e of
                  Undefined \<Rightarrow> (internal_server_error, [DirectoryQuery funderId])
                | Null \<Rightarrow> (internal_server_error, [DirectoryQuery funderId])
                | Str sender \<Rightarrow>
                    (let brokerDomain = split_at_1 sender in
                     if length (Attachments e) = 0
                     then (no_attachments, [DirectoryQuery funderId])
                     else
                       (case filter_pdf (Attachments e) of
                          None \<Rightarrow> (internal_server_error, [DirectoryQuery funderId])
                        | Some pdfAttachments \<Rightarrow>
                            if length pdfAttachments = 0
                            then (\<lparr>http_status = 200,
                                   http_body = MessageBody ''No PDF attachments to process''\<rparr>,
                                  [DirectoryQuery funderId])
                            else
                              (case process_batch w f e brokerDomain pdfAttachments of
                                 (Inl m, evs) \<Rightarrow>
                                   (processing_failed m, DirectoryQuery funderId # evs)
                               | (Inr r, evs) \<Rightarrow> (r, DirectoryQuery funderId # evs)))))))"

section \<open>Observations on a sequence of collaborator calls\<close>

fun is_watermark_call :: "event \<Rightarrow> bool" where
  "is_watermark_call (WatermarkInline funderId logoUrl brokerDomain fileName fileContent) = True"
| "is_watermark_call (WatermarkByUrl email url broker) = True"
| "is_watermark_call (WatermarkBatch email broker files) = True"
| "is_watermark_call ev = False"

fun is_status_poll :: "event \<Rightarrow> bool" where
  "is_status_poll (JobStatus url) = True"
| "is_status_poll ev = False"

text \<open>The messages handed to the mail collaborator, in order.\<close>

fun sent :: "event list \<Rightarrow> message list" where
  "sent [] = []"
| "sent (SendEmail m # evs) = m # sent evs"
| "sent (ev # evs) = sent evs"

text \<open>Bucket and path of the uploads that storage accepted, and of the removals, in order.\<close>

fun uploaded :: "event list \<Rightarrow> (string \<times> string) list" where
  "uploaded [] = []"
| "uploaded (StorageUpload bucket path buf ct True # evs) = (bucket, path) # uploaded evs"
| "uploaded (ev # evs) = uploaded evs"

fun removed :: "event list \<Rightarrow> (string \<times> string) list" where
  "removed [] = []"
| "removed (StorageRemove bucket path # evs) = (bucket, path) # removed evs"
| "removed (ev # evs) = removed evs"

text \<open>Every upload that storage accepted is followed, later in the sequence, by a removal of
  the same path in the same bucket.\<close>

definition removed_later :: "event list \<Rightarrow> bool" where
  "removed_later tr =
     (\<forall>i<length tr. \<forall>bucket path buf ct.
        tr ! i = StorageUpload bucket path buf ct True \<longrightarrow>
        (\<exists>j. i < j \<and> j < length tr \<and> tr ! j = StorageRemove bucket path))"

text \<open>\<open>n\<close> rounds of the poll loop: the 2000 ms timer, then the status request.\<close>

definition polls :: "nat \<Rightarrow> string \<Rightarrow> event list" where
  "polls n url = concat (replicate n [Sleep 2000, JobStatus url])"

text \<open>
  The answers to a status request after which the loop goes round again: a response that
  is not ok, or a status that is neither \<^verbatim>\<open>completed\<close> nor \<^verbatim>\<open>failed\<close>.
\<close>

fun keeps_polling :: "status_response \<Rightarrow> bool" where
  "keeps_polling StatusNotOk = True"
| "keeps_polling (StatusBody st dl em) = (st \<noteq> Str ''completed'' \<and> st \<noteq> Str ''failed'')"
| "keeps_polling (StatusRejected m) = False"
| "keeps_polling (StatusUnreadable m) = False"

section \<open>A concrete directory, environment and inbound emails\<close>

definition acme :: funder where
  "acme = \<lparr>funder_id = ''acme'', active = True, company_name = ''Acme Capital'',
           user_email = ''owner@acme.example'', destination_email = ''ops@acme.example'',
           logo_storage_path = ''acme/logo.png''\<rparr>"

definition dormant :: funder where
  "dormant = \<lparr>funder_id = ''dormant'', active = False, company_name = ''Dormant Funding'',
              user_email = ''owner@dormant.example'', destination_email = ''ops@dormant.example'',
              logo_storage_path = ''dormant/logo.png''\<rparr>"

definition statement_pdf :: attachment where
  "statement_pdf = \<lparr>Name = ''Statement.PDF'', Content = Str ''JVBERg=='',
                    ContentType = ''application/pdf''\<rparr>"

definition ledger_pdf :: attachment where
  "ledger_pdf = \<lparr>Name = ''ledger.pdf'', Content = Str ''JVBERg=='',
                 ContentType = ''application/pdf''\<rparr>"

definition notes_txt :: attachment where
  "notes_txt = \<lparr>Name = ''notes.txt'', Content = Str ''aGk='', ContentType = ''text/plain''\<rparr>"

definition empty_pdf :: attachment where
  "empty_pdf = \<lparr>Name = ''empty.pdf'', Content = Str '''', ContentType = ''application/pdf''\<rparr>"

text \<open>An inbound email with the given entries of \<^verbatim>\<open>Attachments\<close>, and one whose entries are
  all attachment objects.\<close>

definition inbound_entries :: "jsval \<Rightarrow> attachment option list \<Rightarrow> emailData" where
  "inbound_entries rcpt entries =
     \<lparr>ToFull_0_Email = rcpt, To = rcpt, From = Str ''bob@brokerage.example'',
      FromFull_Email = Str ''bob@brokerage.example'', FromName = Str ''Bob Broker'',
      FromFull_Name = Str ''Bob Broker'', Subject = Str ''Deal 42'',
      TextBody = Str ''See attached.'', HtmlBody = Undefined, Attachments = entries\<rparr>"

definition inbound :: "jsval \<Rightarrow> attachment list \<Rightarrow> emailData" where
  "inbound rcpt atts = inbound_entries rcpt (map Some atts)"

definition archive :: "zip_entry list" where
  "archive =
     [\<lparr>entryName = ''out/'', isDirectory = True, getData = ''''\<rparr>,
      \<lparr>entryName = ''out/Statement.PDF'', isDirectory = False, getData = ''%PDF''\<rparr>,
      \<lparr>entryName = ''out/manifest.json'', isDirectory = False, getData = ''hi''\<rparr>,
      \<lparr>entryName = ''out/ledger.pdf'', isDirectory = False, getData = ''%PDF''\<rparr>,
      \<lparr>entryName = ''out/summary.pdf'', isDirectory = False, getData = ''%PDF''\<rparr>]"

text \<open>
  An environment in which every collaborator accepts every request, except that the
  per-attachment watermarking call for the attachment at position 1 is answered 502.
  The job is pending at the first two polls and completed at the third. The two base64
  functions are tabulated on the strings that occur in the examples.
\<close>

definition example_world :: world where
  "example_world =
     \<lparr>email_gateway_funders = [acme, dormant],
      directory_error = False,
      SUPABASE_URL = ''https://db.example'',
      FUNDER_API_URL = ''https://api.example/watermark-funder-broker'',
      publicUrl = (\<lambda>bucket path. ''https://db.example/public/'' @ bucket @ ''/'' @ path),
      Date_now = (\<lambda>i. 1700000000000 + i),
      upload_error = (\<lambda>i path. None),
      funder_api = (\<lambda>i call.
        if i = 1 then NotOk 502 ''Bad Gateway'' ''upstream down''
        else Body (Str ''V00='') (Str ''https://api.example/out.pdf'') (Str ''job-1'')),
      job_status = (\<lambda>n url.
        if n < 2 then StatusBody (Str ''pending'') Undefined Undefined
        else StatusBody (Str ''completed'') (Str ''https://api.example/job-1.zip'') Undefined),
      fetch_file = (\<lambda>i url. DownloadResponse True ''OK'' ''%PDF''),
      AdmZip = (\<lambda>bytes. Inr archive),
      base64_decode = (\<lambda>s. if s = ''JVBERg=='' then ''%PDF'' else if s = ''aGk='' then ''hi'' else []),
      base64_encode = (\<lambda>b. if b = ''%PDF'' then ''JVBERg=='' else if b = ''hi'' then ''aGk=''
                           else if b = ''Not Found'' then ''Tm90IEZvdW5k'' else []),
      sendEmail_error = (\<lambda>m. None)\<rparr>"

text \<open>The same environment with a job that stays pending, and with one that fails at the third poll.\<close>

definition stalled_world :: world where
  "stalled_world =
     example_world\<lparr>job_status := (\<lambda>n url. StatusBody (Str ''pending'') Undefined Undefined)\<rparr>"

definition failing_world :: world where
  "failing_world =
     example_world\<lparr>job_status := (\<lambda>n url.
        if n < 2 then StatusBody (Str ''pending'') Undefined Undefined
        else StatusBody (Str ''failed'') Undefined (Str ''page 3 is corrupt''))\<rparr>"

text \<open>The same environment with a watermarking service that refuses every connection.\<close>

definition down_world :: world where
  "down_world = example_world\<lparr>funder_api := (\<lambda>i call. Rejected ''connect ECONNREFUSED'')\<rparr>"

text \<open>The same environment in which the file behind every returned URL is gone: each download
  is answered 404 with the body \<^verbatim>\<open>Not Found\<close>.\<close>

definition gone_world :: world where
  "gone_world =
     example_world\<lparr>fetch_file := (\<lambda>i url. DownloadResponse False ''Not Found'' ''Not Found'')\<rparr>"

section \<open>Evaluation rules and facts shared by the proofs\<close>

lemma string_of_nat_small: "n < 10 \<Longrightarrow> string_of_nat n = [''0123456789'' ! n]"
  by (subst string_of_nat.simps) simp

lemma string_of_nat_large:
  "10 \<le> n \<Longrightarrow> string_of_nat n = string_of_nat (n div 10) @ [''0123456789'' ! (n mod 10)]"
  by (subst string_of_nat.simps) simp

lemma fst_split_char: "fst (split_char c s) = takeWhile (\<lambda>x. x \<noteq> c) s"
  by (induction s) (auto split: prod.splits)

lemma split_at_0_takeWhile: "split_at_0 s = takeWhile (\<lambda>x. x \<noteq> CHR ''@'') s"
  by (simp add: split_at_0_def fst_split_char)

lemma split_at_0_before_first:
  "CHR ''@'' \<notin> set key \<Longrightarrow> split_at_0 (key @ CHR ''@'' # rest) = key"
  by (induction key) (auto simp: split_at_0_takeWhile)

lemma lookup_funder_sound:
  "lookup_funder w k = Some f \<Longrightarrow> f \<in> set (email_gateway_funders w) \<and> funder_id f = k \<and> active f"
proof -
  assume a: "lookup_funder w k = Some f"
  then have "eq_active True (eq_funder_id k (email_gateway_funders w)) = [f]"
    by (auto simp: lookup_funder_def single_def split: if_splits list.splits)
  then have "f \<in> set (filter (\<lambda>r. active r = True) (filter (\<lambda>r. funder_id r = k) (email_gateway_funders w)))"
    by (simp add: eq_active_def eq_funder_id_def)
  then show ?thesis by auto
qed

lemma lookup_funder_inactive:
  "\<forall>r \<in> set (email_gateway_funders w). funder_id r = k \<longrightarrow> \<not> active r \<Longrightarrow> lookup_funder w k = None"
  using lookup_funder_sound [of w k] by (cases "lookup_funder w k") auto

lemmas examples =
  acme_def dormant_def statement_pdf_def ledger_pdf_def notes_txt_def empty_pdf_def
  inbound_def inbound_entries_def archive_def example_world_def

lemmas handler_defs =
  recipientEmail_def senderEmail_def senderName_def js_or_def lookup_funder_def single_def
  eq_active_def eq_funder_id_def split_at_0_def split_at_1_def internal_server_error_def
  funder_not_found_def no_attachments_def all_failed_def Let_def

section \<open>Tenant lookup\<close>

text \<open>
  Claim C10. When the webhook body holds no recipient address, neither
  \<^verbatim>\<open>ToFull[0].Email\<close> nor \<^verbatim>\<open>To\<close>, the handler answers 500 with the payload of the outer
  \<^verbatim>\<open>catch\<close> (not 404), and no collaborator has been called. The three handlers agree.
\<close>

theorem missing_recipient:
  assumes "ToFull_0_Email e = Undefined \<or> ToFull_0_Email e = Null"
    and "To e = Undefined \<or> To e = Null"
  shows "webhook_inbound w e =
           (\<lparr>http_status = 500, http_body = ErrorBody ''Internal server error''\<rparr>, [])
       \<and> webhook_inbound_staged w e =
           (\<lparr>http_status = 500, http_body = ErrorBody ''Internal server error''\<rparr>, [])
       \<and> webhook_inbound_async w e =
           (\<lparr>http_status = 500, http_body = ErrorBody ''Internal server error''\<rparr>, [])"
  using assms
  by (auto simp: webhook_inbound_def webhook_inbound_staged_def webhook_inbound_async_def
      recipientEmail_def js_or_def internal_server_error_def)

text \<open>Claim C10 at an email without recipient fields.\<close>

theorem missing_recipient_witness:
  "ToFull_0_Email (inbound Undefined [statement_pdf]) = Undefined
   \<and> To (inbound Undefined [statement_pdf]) = Undefined
   \<and> webhook_inbound example_world (inbound Undefined [statement_pdf]) =
       (\<lparr>http_status = 500, http_body = ErrorBody ''Internal server error''\<rparr>, [])"
  using missing_recipient [of "inbound Undefined [statement_pdf]" example_world]
  by (simp add: inbound_def inbound_entries_def)

text \<open>
  Claim C1 says that a recipient address without \<^verbatim>\<open>@\<close> fails the lookup before any
  collaborator is called. The address \<^verbatim>\<open>acme\<close> has no separator; the handler of index.js
  takes the whole address as tenant key, finds the tenant, watermarks and forwards.
\<close>

theorem tenant_key_no_separator_counterexample:
  "CHR ''@'' \<notin> set ''acme''
   \<and> webhook_inbound example_world (inbound (Str ''acme'') [statement_pdf]) =
       (\<lparr>http_status = 200,
         http_body = SuccessBody ''Email processed and forwarded'' ''attachments'' 1\<rparr>,
        [DirectoryQuery ''acme'',
         GetPublicUrl ''gateway-logos'' ''acme/logo.png'',
         WatermarkInline ''acme'' ''https://db.example/public/gateway-logos/acme/logo.png''
           (Str ''brokerage.example'') ''Statement.PDF'' (Str ''JVBERg==''),
         SendEmail \<lparr>msg_From = Str ''bob@brokerage.example'', msg_ReplyTo = Undefined,
                    msg_To = ''ops@acme.example'', msg_Subject = ''New Submission'',
                    msg_TextBody = '''',
                    msg_Attachments = [\<lparr>Name = ''Statement.PDF'', Content = Str ''V00='',
                                        ContentType = ''application/pdf''\<rparr>]\<rparr>])"
  by (simp add: webhook_inbound_def handler_defs examples watermark_inline_def inline_message_def)

text \<open>
  Claim C1, amended. The tenant key is \<^verbatim>\<open>recipientEmail.split('@')[0]\<close>: the substring
  before the first \<^verbatim>\<open>@\<close>, and the whole address when it has no \<^verbatim>\<open>@\<close>. No address is
  rejected for want of a separator: in each handler the first collaborator called is
  the tenant directory, queried with that key.
\<close>

theorem tenant_key:
  assumes "recipientEmail e = Str rcpt"
  shows "split_at_0 rcpt = takeWhile (\<lambda>c. c \<noteq> CHR ''@'') rcpt
       \<and> (CHR ''@'' \<notin> set rcpt \<longrightarrow> split_at_0 rcpt = rcpt)
       \<and> (\<forall>key rest. rcpt = key @ CHR ''@'' # rest \<and> CHR ''@'' \<notin> set key \<longrightarrow> split_at_0 rcpt = key)
       \<and> (\<exists>evs. snd (webhook_inbound w e) = DirectoryQuery (split_at_0 rcpt) # evs)
       \<and> (\<exists>evs. snd (webhook_inbound_staged w e) = DirectoryQuery (split_at_0 rcpt) # evs)
       \<and> (\<exists>evs. snd (webhook_inbound_async w e) = DirectoryQuery (split_at_0 rcpt) # evs)"
proof -
  have a: "split_at_0 rcpt = takeWhile (\<lambda>c. c \<noteq> CHR ''@'') rcpt"
    by (rule split_at_0_takeWhile)
  have b: "CHR ''@'' \<notin> set rcpt \<longrightarrow> split_at_0 rcpt = rcpt"
    by (auto simp: a)
  have c: "\<forall>key rest. rcpt = key @ CHR ''@'' # rest \<and> CHR ''@'' \<notin> set key \<longrightarrow> split_at_0 rcpt = key"
    by (auto simp: split_at_0_before_first)
  have d: "\<exists>evs. snd (webhook_inbound w e) = DirectoryQuery (split_at_0 rcpt) # evs"
    using assms
    by (auto simp: webhook_inbound_def Let_def split: option.splits jsval.splits prod.splits)
  have e: "\<exists>evs. snd (webhook_inbound_staged w e) = DirectoryQuery (split_at_0 rcpt) # evs"
    using assms
    by (auto simp: webhook_inbound_staged_def Let_def split: option.splits jsval.splits prod.splits)
  have f: "\<exists>evs. snd (webhook_inbound_async w e) = DirectoryQuery (split_at_0 rcpt) # evs"
    using assms
    by (auto simp: webhook_inbound_async_def Let_def
        split: option.splits jsval.splits prod.splits sum.splits)
  from a b c d e f show ?thesis by blast
qed

text \<open>Claim C1, amended, at the address \<^verbatim>\<open>acme@gateway.example\<close>.\<close>

theorem tenant_key_witness:
  "recipientEmail (inbound (Str ''acme@gateway.example'') []) = Str ''acme@gateway.example''
   \<and> ''acme@gateway.example'' = ''acme'' @ CHR ''@'' # ''gateway.example''
   \<and> CHR ''@'' \<notin> set ''acme''
   \<and> split_at_0 ''acme@gateway.example'' = ''acme''
   \<and> snd (webhook_inbound example_world (inbound (Str ''acme@gateway.example'') [])) =
        [DirectoryQuery ''acme'']"
proof -
  have r: "recipientEmail (inbound (Str ''acme@gateway.example'') []) = Str ''acme@gateway.example''"
    by (simp add: recipientEmail_def js_or_def inbound_def inbound_entries_def)
  from tenant_key [OF r, of example_world]
  have "split_at_0 ''acme@gateway.example'' = ''acme''" by simp
  moreover have "snd (webhook_inbound example_world (inbound (Str ''acme@gateway.example'') [])) =
        [DirectoryQuery ''acme'']"
    by (simp add: webhook_inbound_def handler_defs examples)
  ultimately show ?thesis using r by simp
qed

text \<open>
  Claim C8. When every directory record whose \<^verbatim>\<open>funder_id\<close> is the derived tenant key has
  its active flag false, each handler answers 404 \<^verbatim>\<open>Funder not found\<close>, and the directory
  query is the only collaborator call of the request: nothing is watermarked or mailed.
\<close>

theorem inactive_tenant:
  assumes "recipientEmail e = Str rcpt"
    and "\<forall>r \<in> set (email_gateway_funders w). funder_id r = split_at_0 rcpt \<longrightarrow> \<not> active r"
  shows "webhook_inbound w e =
           (\<lparr>http_status = 404, http_body = ErrorBody ''Funder not found''\<rparr>,
            [DirectoryQuery (split_at_0 rcpt)])
       \<and> webhook_inbound_staged w e =
           (\<lparr>http_status = 404, http_body = ErrorBody ''Funder not found''\<rparr>,
            [DirectoryQuery (split_at_0 rcpt)])
       \<and> webhook_inbound_async w e =
           (\<lparr>http_status = 404, http_body = ErrorBody ''Funder not found''\<rparr>,
            [DirectoryQuery (split_at_0 rcpt)])"
proof -
  have "lookup_funder w (split_at_0 rcpt) = None"
    using assms(2) by (rule lookup_funder_inactive)
  with assms(1) show ?thesis
    by (simp add: webhook_inbound_def webhook_inbound_staged_def webhook_inbound_async_def
        funder_not_found_def)
qed

text \<open>Claim C8 at the inactive tenant \<^verbatim>\<open>dormant\<close>.\<close>

theorem inactive_tenant_witness:
  "recipientEmail (inbound (Str ''dormant@gateway.example'') [statement_pdf]) =
     Str ''dormant@gateway.example''
   \<and> filter (\<lambda>r. funder_id r = split_at_0 ''dormant@gateway.example'')
         (email_gateway_funders example_world) = [dormant]
   \<and> \<not> active dormant
   \<and> webhook_inbound_async example_world (inbound (Str ''dormant@gateway.example'') [statement_pdf]) =
       (\<lparr>http_status = 404, http_body = ErrorBody ''Funder not found''\<rparr>,
        [DirectoryQuery ''dormant''])"
proof -
  have r: "recipientEmail (inbound (Str ''dormant@gateway.example'') [statement_pdf]) =
     Str ''dormant@gateway.example''"
    by (simp add: recipientEmail_def js_or_def inbound_def inbound_entries_def)
  have k: "split_at_0 ''dormant@gateway.example'' = ''dormant''"
    by (simp add: split_at_0_def)
  have i: "\<forall>r \<in> set (email_gateway_funders example_world).
         funder_id r = split_at_0 ''dormant@gateway.example'' \<longrightarrow> \<not> active r"
    by (simp add: k example_world_def acme_def dormant_def)
  have d: "filter (\<lambda>r. funder_id r = split_at_0 ''dormant@gateway.example'')
         (email_gateway_funders example_world) = [dormant] \<and> \<not> active dormant"
    by (simp add: k example_world_def acme_def dormant_def)
  from inactive_tenant [OF r i] r d k show ?thesis by simp
qed

section \<open>Facts about the loop functions\<close>

lemma senderName_of_sender: "senderEmail e = Str s \<Longrightarrow> \<exists>n. senderName e = Some n"
  by (auto simp: senderName_def split: jsval.splits)

text \<open>On a list whose entries are all attachment objects no error leaves the loops, and the
  filter of the asynchronous handler is the plain filter on the names.\<close>

lemma inline_loop_not_thrown:
  "inline_loop w f k bd i (map Some as) = (thrown, outs, evs) \<Longrightarrow> \<not> thrown"
  by (induction as arbitrary: i thrown outs evs) (auto split: prod.splits)

lemma staged_loop_objects: "\<not> fst (staged_loop w f sn i (map Some as))"
  by (induction as arbitrary: i) (simp_all add: case_prod_unfold Let_def)

lemma staged_loop_not_thrown:
  "staged_loop w f sn i (map Some as) = (thrown, outs, ts, evs) \<Longrightarrow> \<not> thrown"
  using staged_loop_objects [of w f sn i as] by simp

lemma filter_pdf_objects:
  "filter_pdf (map Some as) = Some (filter (\<lambda>att. is_pdf (Name att)) as)"
  by (induction as) auto

lemma staged_loop_no_pdf:
  "filter (\<lambda>att. is_pdf (Name att)) as = []
   \<Longrightarrow> staged_loop w f sn i (map Some as) = (False, [], [], [])"
  by (induction as arbitrary: i) (auto simp: watermark_staged_def split: if_splits)

lemma sent_append: "sent (xs @ ys) = sent xs @ sent ys"
  by (induction xs rule: sent.induct) auto

lemma sent_watermark_inline: "sent (snd (watermark_inline w f k bd i a)) = []"
  by (simp add: watermark_inline_def Let_def split: api_response.splits)

lemma sent_inline_loop: "sent (snd (snd (inline_loop w f k bd i as))) = []"
proof (induction as arbitrary: i)
  case Nil
  show ?case by simp
next
  case (Cons entry as)
  show ?case
  proof (cases entry)
    case None
    then show ?thesis by simp
  next
    case (Some a)
    obtain r evs where one: "watermark_inline w f k bd i a = (r, evs)"
      by (cases "watermark_inline w f k bd i a")
    obtain th rs evs' where rest: "inline_loop w f k bd (Suc i) as = (th, rs, evs')"
      by (cases "inline_loop w f k bd (Suc i) as") auto
    have "sent evs = []" using sent_watermark_inline [of w f k bd i a] one by simp
    moreover have "sent evs' = []" using Cons.IH [of "Suc i"] rest by simp
    ultimately show ?thesis using Some one rest by (simp add: sent_append)
  qed
qed

lemma sent_watermark_staged: "sent (snd (snd (watermark_staged w f sn i a))) = []"
  by (simp add: watermark_staged_def Let_def
      split: api_response.splits jsval.splits option.splits download_response.splits)

lemma sent_staged_loop: "sent (snd (snd (snd (staged_loop w f sn i as)))) = []"
proof (induction as arbitrary: i)
  case Nil
  show ?case by simp
next
  case (Cons entry as)
  show ?case
  proof (cases entry)
    case None
    then show ?thesis by simp
  next
    case (Some a)
    obtain r t evs where one: "watermark_staged w f sn i a = (r, t, evs)"
      by (cases "watermark_staged w f sn i a")
    obtain th rs ts evs' where rest: "staged_loop w f sn (Suc i) as = (th, rs, ts, evs')"
      by (cases "staged_loop w f sn (Suc i) as") auto
    have "sent evs = []" using sent_watermark_staged [of w f sn i a] one by simp
    moreover have "sent evs' = []" using Cons.IH [of "Suc i"] rest by simp
    ultimately show ?thesis using Some one rest by (simp add: sent_append)
  qed
qed

lemma sent_inline_loop_rule:
  "inline_loop w f k bd i as = (thrown, outs, evs) \<Longrightarrow> sent evs = []"
  using sent_inline_loop [of w f k bd i as] by simp

lemma sent_staged_loop_rule:
  "staged_loop w f sn i as = (thrown, outs, ts, evs) \<Longrightarrow> sent evs = []"
  using sent_staged_loop [of w f sn i as] by simp

lemma sent_cleanup: "sent (cleanup ts) = []"
  by (induction ts) (auto simp: cleanup_def)

lemma poll_loop_done:
  "\<not> (attempts < 15 \<and> \<not> jobCompleted)
   \<Longrightarrow> poll_loop w url attempts jobCompleted downloadUrl = (Inr (jobCompleted, downloadUrl), [])"
  by (subst poll_loop.simps) auto

lemma poll_loop_again:
  "attempts < 15 \<Longrightarrow> keeps_polling (job_status w attempts url)
   \<Longrightarrow> poll_loop w url attempts False downloadUrl =
        (fst (poll_loop w url (Suc attempts) False downloadUrl),
         [Sleep 2000, JobStatus url] @ snd (poll_loop w url (Suc attempts) False downloadUrl))"
  by (subst poll_loop.simps)
    (auto split: status_response.splits prod.splits)

lemma poll_loop_completed:
  "attempts < 15 \<Longrightarrow> job_status w attempts url = StatusBody (Str ''completed'') dl em
   \<Longrightarrow> poll_loop w url attempts False downloadUrl = (Inr (True, dl), [Sleep 2000, JobStatus url])"
  by (subst poll_loop.simps) (simp add: poll_loop_done)

lemma poll_loop_failed:
  "attempts < 15 \<Longrightarrow> job_status w attempts url = StatusBody (Str ''failed'') dl em
   \<Longrightarrow> poll_loop w url attempts False downloadUrl =
        (Inl (''Watermarking job failed: '' @ template em), [Sleep 2000, JobStatus url])"
  by (subst poll_loop.simps) simp

lemma poll_loop_thrown:
  "attempts < 15 \<Longrightarrow> \<not> jobCompleted
   \<Longrightarrow> job_status w attempts url = StatusRejected m \<or> job_status w attempts url = StatusUnreadable m
   \<Longrightarrow> poll_loop w url attempts jobCompleted downloadUrl = (Inl m, [Sleep 2000, JobStatus url])"
  by (subst poll_loop.simps) auto

text \<open>The calls of the poll loop are rounds of timer and status request, at most 15 of them.\<close>

lemma poll_loop_trace:
  "\<exists>n. n \<le> 15 - attempts \<and> snd (poll_loop w url attempts jobCompleted downloadUrl) = polls n url"
proof (induction w url attempts jobCompleted downloadUrl rule: poll_loop.induct)
  case (1 w url attempts jobCompleted downloadUrl)
  show ?case
  proof (cases "attempts < 15 \<and> \<not> jobCompleted")
    case False
    then have "snd (poll_loop w url attempts jobCompleted downloadUrl) = polls 0 url"
      by (simp add: poll_loop_done polls_def)
    then show ?thesis by blast
  next
    case True
    note go = True
    then have lt: "attempts < 15" by blast
    have one: "polls (Suc 0) url = [Sleep 2000, JobStatus url]"
      by (simp add: polls_def)
    have more: "\<And>n. [Sleep 2000, JobStatus url] @ polls n url = polls (Suc n) url"
      by (simp add: polls_def)
    show ?thesis
    proof (cases "job_status w attempts url")
      case (StatusRejected m)
      with go have "snd (poll_loop w url attempts jobCompleted downloadUrl) = polls (Suc 0) url"
        by (simp add: poll_loop_thrown one)
      moreover from lt have "Suc 0 \<le> 15 - attempts" by arith
      ultimately show ?thesis by blast
    next
      case (StatusUnreadable m)
      with go have "snd (poll_loop w url attempts jobCompleted downloadUrl) = polls (Suc 0) url"
        by (simp add: poll_loop_thrown one)
      moreover from lt have "Suc 0 \<le> 15 - attempts" by arith
      ultimately show ?thesis by blast
    next
      case StatusNotOk
      from "1.IH"(1) [OF go StatusNotOk]
      obtain n where n: "n \<le> 15 - (attempts + 1)"
        "snd (poll_loop w url (attempts + 1) jobCompleted downloadUrl) = polls n url"
        by blast
      have "snd (poll_loop w url attempts jobCompleted downloadUrl) =
              [Sleep 2000, JobStatus url] @ polls n url"
        using go StatusNotOk n(2)
        by (subst poll_loop.simps) (auto split: prod.splits)
      moreover from lt n(1) have "Suc n \<le> 15 - attempts" by arith
      ultimately show ?thesis unfolding more by blast
    next
      case (StatusBody st dl em)
      show ?thesis
      proof (cases "st = Str ''completed''")
        case True
        from go StatusBody True
        have "poll_loop w url attempts jobCompleted downloadUrl =
                (Inr (True, dl), [Sleep 2000, JobStatus url])"
          by (simp add: poll_loop_completed)
        then have "snd (poll_loop w url attempts jobCompleted downloadUrl) = polls (Suc 0) url"
          by (simp add: one)
        moreover from lt have "Suc 0 \<le> 15 - attempts" by arith
        ultimately show ?thesis by blast
      next
        case False
        note not_completed = False
        show ?thesis
        proof (cases "st = Str ''failed''")
          case True
          from go StatusBody True
          have "snd (poll_loop w url attempts jobCompleted downloadUrl) = polls (Suc 0) url"
            by (simp add: poll_loop_failed one)
          moreover from lt have "Suc 0 \<le> 15 - attempts" by arith
          ultimately show ?thesis by blast
        next
          case False
          from "1.IH"(3) [OF go StatusBody not_completed False]
          obtain n where n: "n \<le> 15 - (attempts + 1)"
            "snd (poll_loop w url (attempts + 1) jobCompleted downloadUrl) = polls n url"
            by blast
          have "snd (poll_loop w url attempts jobCompleted downloadUrl) =
                  [Sleep 2000, JobStatus url] @ polls n url"
            using go StatusBody not_completed False n(2)
            by (subst poll_loop.simps) (auto split: prod.splits)
          moreover from lt n(1) have "Suc n \<le> 15 - attempts" by arith
          ultimately show ?thesis unfolding more by blast
        qed
      qed
    qed
  qed
qed

lemma sent_polls: "sent (polls n url) = []"
  by (induction n) (auto simp: polls_def)

lemma sent_poll_loop: "sent (snd (poll_loop w url a jc dl)) = []"
  using poll_loop_trace [of a w url jc dl] by (auto simp: sent_polls)

lemma calls_watermark_inline:
  "filter is_watermark_call (snd (watermark_inline w f k bd i a)) =
     [WatermarkInline k (publicUrl w ''gateway-logos'' (logo_storage_path f)) bd (Name a) (Content a)]"
  by (simp add: watermark_inline_def Let_def split: api_response.splits)

lemma calls_inline_loop:
  "filter is_watermark_call (snd (snd (inline_loop w f k bd i (map Some as)))) =
     map (\<lambda>a. WatermarkInline k (publicUrl w ''gateway-logos'' (logo_storage_path f)) bd
                (Name a) (Content a)) as"
proof (induction as arbitrary: i)
  case Nil
  show ?case by simp
next
  case (Cons a as)
  obtain r evs where one: "watermark_inline w f k bd i a = (r, evs)"
    by (cases "watermark_inline w f k bd i a")
  obtain th rs evs' where rest: "inline_loop w f k bd (Suc i) (map Some as) = (th, rs, evs')"
    by (cases "inline_loop w f k bd (Suc i) (map Some as)") auto
  from calls_watermark_inline [of w f k bd i a] one
  have "filter is_watermark_call evs =
          [WatermarkInline k (publicUrl w ''gateway-logos'' (logo_storage_path f)) bd (Name a) (Content a)]"
    by simp
  moreover from Cons.IH [of "Suc i"] rest
  have "filter is_watermark_call evs' =
          map (\<lambda>a. WatermarkInline k (publicUrl w ''gateway-logos'' (logo_storage_path f)) bd
                (Name a) (Content a)) as"
    by simp
  ultimately show ?case using one rest by simp
qed

lemma inline_calls:
  assumes "recipientEmail e = Str rcpt"
    and "lookup_funder w (split_at_0 rcpt) = Some f"
    and "senderEmail e = Str sender"
    and "Attachments e = map Some atts"
  shows "filter is_watermark_call (snd (webhook_inbound w e)) =
           map (\<lambda>att. WatermarkInline (split_at_0 rcpt)
                        (publicUrl w ''gateway-logos'' (logo_storage_path f)) (split_at_1 sender)
                        (Name att) (Content att))
             atts"
proof -
  obtain th outs evs
    where loop: "inline_loop w f (split_at_0 rcpt) (split_at_1 sender) 0 (map Some atts) =
      (th, outs, evs)"
    by (cases "inline_loop w f (split_at_0 rcpt) (split_at_1 sender) 0 (map Some atts)") auto
  from inline_loop_not_thrown [OF loop] have th: "\<not> th" .
  from calls_inline_loop [of w f "split_at_0 rcpt" "split_at_1 sender" 0 atts] loop
  have calls: "filter is_watermark_call evs =
      map (\<lambda>att. WatermarkInline (split_at_0 rcpt)
                        (publicUrl w ''gateway-logos'' (logo_storage_path f)) (split_at_1 sender)
                        (Name att) (Content att))
        atts"
    by simp
  show ?thesis
    using assms loop calls th
    by (simp add: webhook_inbound_def Let_def split: option.splits)
qed

lemma process_batch_head:
  "\<exists>evs. snd (process_batch w f e bd pdfs) = submit_call f bd pdfs # evs"
  by (auto simp: process_batch_def Let_def split: api_response.splits prod.splits sum.splits)

lemma sent_submit_call: "sent (submit_call f bd pdfs # evs) = sent evs"
  by (simp add: submit_call_def)

lemma sent_download_and_send:
  "m \<in> set (sent (snd (download_and_send w f e n dl))) \<Longrightarrow> \<exists>outs. m = batch_message f e outs"
  by (auto simp: download_and_send_def Let_def
      split: download_response.splits if_splits sum.splits option.splits)

lemma sent_process_batch:
  assumes "m \<in> set (sent (snd (process_batch w f e bd pdfs)))"
  shows "\<exists>outs. m = batch_message f e outs"
proof (cases "funder_api w 0 (submit_call f bd pdfs)")
  case (Rejected x)
  with assms show ?thesis by (simp add: process_batch_def sent_submit_call)
next
  case (NotOk st t x)
  with assms show ?thesis by (simp add: process_batch_def sent_submit_call)
next
  case (BodyUnreadable x)
  with assms show ?thesis by (simp add: process_batch_def sent_submit_call)
next
  case (Body c u jobId)
  define url where "url = job_status_url w jobId"
  obtain r evs where p: "poll_loop w url 0 False Null = (r, evs)"
    by (cases "poll_loop w url 0 False Null")
  have evs: "sent evs = []" using sent_poll_loop [of w url 0 False Null] p by simp
  show ?thesis
  proof (cases r)
    case (Inl msg)
    with assms Body p evs show ?thesis by (simp add: process_batch_def url_def sent_submit_call)
  next
    case (Inr fin)
    obtain jc dl where fin: "fin = (jc, dl)" by (cases fin)
    obtain r' evs' where d: "download_and_send w f e (length pdfs) dl = (r', evs')"
      by (cases "download_and_send w f e (length pdfs) dl")
    from assms Body p evs Inr fin d have "jc \<and> m \<in> set (sent evs')"
      by (auto simp: process_batch_def url_def sent_append sent_submit_call Let_def split: if_splits)
    with sent_download_and_send [of m w f e "length pdfs" dl] d show ?thesis by simp
  qed
qed

lemma sent_process_batch_rule:
  "process_batch w f e bd pdfs = (r, evs) \<Longrightarrow> m \<in> set (sent evs)
   \<Longrightarrow> \<exists>outs. m = batch_message f e outs"
  using sent_process_batch [of m w f e bd pdfs] by simp

lemmas run_defs =
  webhook_inbound_def webhook_inbound_staged_def webhook_inbound_async_def
  watermark_inline_def watermark_staged_def inline_message_def staged_message_def
  batch_message_def process_batch_def download_and_send_def extract_pdfs_def cleanup_def
  is_pdf_def endsWith_def startsWith_def toLowerCase_def lower_char_def str_or_def polls_def
  submit_call_def job_status_url_def processing_failed_def temp_file_name_def absolute_url_def

lemmas eval_rules =
  string_of_nat_small string_of_nat_large poll_loop_again poll_loop_completed poll_loop_failed
  poll_loop_done

section \<open>Attachment filtering\<close>

text \<open>
  Claim C2 says that a list with no \<^verbatim>\<open>.pdf\<close> name gives the no-op response in every
  variant, without a watermarking call. The handler of index.js has no filter: the
  only attachment here is \<^verbatim>\<open>notes.txt\<close>, and it is submitted and forwarded.
\<close>

theorem no_documents_counterexample:
  "Attachments (inbound (Str ''acme@gateway.example'') [notes_txt]) = map Some [notes_txt]
   \<and> filter (\<lambda>att. is_pdf (Name att)) [notes_txt] = []
   \<and> webhook_inbound example_world (inbound (Str ''acme@gateway.example'') [notes_txt]) =
       (\<lparr>http_status = 200,
         http_body = SuccessBody ''Email processed and forwarded'' ''attachments'' 1\<rparr>,
        [DirectoryQuery ''acme'',
         GetPublicUrl ''gateway-logos'' ''acme/logo.png'',
         WatermarkInline ''acme'' ''https://db.example/public/gateway-logos/acme/logo.png''
           (Str ''brokerage.example'') ''notes.txt'' (Str ''aGk=''),
         SendEmail \<lparr>msg_From = Str ''bob@brokerage.example'', msg_ReplyTo = Undefined,
                    msg_To = ''ops@acme.example'', msg_Subject = ''New Submission'',
                    msg_TextBody = '''',
                    msg_Attachments = [\<lparr>Name = ''notes.txt'', Content = Str ''V00='',
                                        ContentType = ''text/plain''\<rparr>]\<rparr>])"
  by (simp add: run_defs handler_defs examples)

text \<open>
  Claim C2, amended. With the tenant resolved, a sender address present and an attachment
  list \<open>atts\<close> of attachment objects: in the asynchronous handler a list with no \<^verbatim>\<open>.pdf\<close> name
  (case-insensitive), empty or not, gives a 200 no-op response and the directory query is
  the only collaborator call; in the staging handler such a list leads to no watermarking
  call either; and in every handler an empty attachment list gives the 200 no-op response
  with no watermarking call. The handler of index.js does not filter: it makes one
  watermarking call per attachment.
\<close>

theorem no_documents:
  assumes "recipientEmail e = Str rcpt"
    and "lookup_funder w (split_at_0 rcpt) = Some f"
    and "senderEmail e = Str sender"
    and "Attachments e = map Some atts"
    and "filter (\<lambda>att. is_pdf (Name att)) atts = []"
  shows "webhook_inbound_async w e =
           (\<lparr>http_status = 200,
             http_body = MessageBody (if atts = [] then ''No attachments to process''
                                      else ''No PDF attachments to process'')\<rparr>,
            [DirectoryQuery (split_at_0 rcpt)])
       \<and> snd (webhook_inbound_staged w e) = [DirectoryQuery (split_at_0 rcpt)]
       \<and> (atts = [] \<longrightarrow>
            webhook_inbound w e =
              (\<lparr>http_status = 200, http_body = MessageBody ''No attachments to process''\<rparr>,
               [DirectoryQuery (split_at_0 rcpt)])
          \<and> webhook_inbound_staged w e =
              (\<lparr>http_status = 200, http_body = MessageBody ''No attachments to process''\<rparr>,
               [DirectoryQuery (split_at_0 rcpt)]))
       \<and> length (filter is_watermark_call (snd (webhook_inbound w e))) = length atts"
proof -
  obtain sn where sn: "senderName e = Some sn"
    using senderName_of_sender [OF assms(3)] by blast
  have a: "webhook_inbound_async w e =
           (\<lparr>http_status = 200,
             http_body = MessageBody (if atts = [] then ''No attachments to process''
                                      else ''No PDF attachments to process'')\<rparr>,
            [DirectoryQuery (split_at_0 rcpt)])"
    using assms by (simp add: webhook_inbound_async_def no_attachments_def filter_pdf_objects)
  have b: "snd (webhook_inbound_staged w e) = [DirectoryQuery (split_at_0 rcpt)]"
    using assms(1,2,4) sn staged_loop_no_pdf [OF assms(5), of w f sn 0]
    by (simp add: webhook_inbound_staged_def cleanup_def Let_def)
  have c: "atts = [] \<longrightarrow>
            webhook_inbound w e =
              (\<lparr>http_status = 200, http_body = MessageBody ''No attachments to process''\<rparr>,
               [DirectoryQuery (split_at_0 rcpt)])
          \<and> webhook_inbound_staged w e =
              (\<lparr>http_status = 200, http_body = MessageBody ''No attachments to process''\<rparr>,
               [DirectoryQuery (split_at_0 rcpt)])"
    using assms(1,2,3,4) sn
    by (simp add: webhook_inbound_def webhook_inbound_staged_def no_attachments_def)
  have d: "length (filter is_watermark_call (snd (webhook_inbound w e))) = length atts"
    using inline_calls [OF assms(1,2,3,4)] by simp
  from a b c d show ?thesis by blast
qed

text \<open>Claim C2, amended, at an email whose only attachment is \<^verbatim>\<open>notes.txt\<close>.\<close>

theorem no_documents_witness:
  "recipientEmail (inbound (Str ''acme@gateway.example'') [notes_txt]) = Str ''acme@gateway.example''
   \<and> lookup_funder example_world (split_at_0 ''acme@gateway.example'') = Some acme
   \<and> senderEmail (inbound (Str ''acme@gateway.example'') [notes_txt]) = Str ''bob@brokerage.example''
   \<and> Attachments (inbound (Str ''acme@gateway.example'') [notes_txt]) = map Some [notes_txt]
   \<and> filter (\<lambda>att. is_pdf (Name att)) [notes_txt] = []
   \<and> webhook_inbound_async example_world (inbound (Str ''acme@gateway.example'') [notes_txt]) =
        (\<lparr>http_status = 200, http_body = MessageBody ''No PDF attachments to process''\<rparr>,
         [DirectoryQuery ''acme''])
   \<and> snd (webhook_inbound_staged example_world (inbound (Str ''acme@gateway.example'') [notes_txt])) =
        [DirectoryQuery ''acme'']
   \<and> length (filter is_watermark_call
        (snd (webhook_inbound example_world (inbound (Str ''acme@gateway.example'') [notes_txt])))) = 1"
proof -
  have r: "recipientEmail (inbound (Str ''acme@gateway.example'') [notes_txt]) = Str ''acme@gateway.example''"
    by (simp add: handler_defs examples)
  have f: "lookup_funder example_world (split_at_0 ''acme@gateway.example'') = Some acme"
    by (simp add: handler_defs examples)
  have s: "senderEmail (inbound (Str ''acme@gateway.example'') [notes_txt]) = Str ''bob@brokerage.example''"
    by (simp add: handler_defs examples)
  have a: "Attachments (inbound (Str ''acme@gateway.example'') [notes_txt]) = map Some [notes_txt]"
    by (simp add: inbound_def inbound_entries_def)
  have p: "filter (\<lambda>att. is_pdf (Name att)) [notes_txt] = []"
    by (simp add: run_defs examples)
  have k: "split_at_0 ''acme@gateway.example'' = ''acme''"
    by (simp add: split_at_0_def)
  from no_documents [OF r f s a p] r f s a p k show ?thesis by simp
qed

section \<open>Outbound message\<close>

text \<open>
  Claim C6 says that in every variant the sender field is the fixed identity of the
  gateway and the reply-to field is the original sender. The handler of index.js sends
  with the original sender's address as \<^verbatim>\<open>From\<close> and sets no \<^verbatim>\<open>ReplyTo\<close>.
\<close>

theorem outbound_addressing_counterexample:
  "senderEmail (inbound (Str ''acme@gateway.example'') [ledger_pdf]) = Str ''bob@brokerage.example''
   \<and> sent (snd (webhook_inbound example_world (inbound (Str ''acme@gateway.example'') [ledger_pdf]))) =
       [\<lparr>msg_From = Str ''bob@brokerage.example'', msg_ReplyTo = Undefined,
         msg_To = ''ops@acme.example'', msg_Subject = ''New Submission'', msg_TextBody = '''',
         msg_Attachments = [\<lparr>Name = ''ledger.pdf'', Content = Str ''V00='',
                             ContentType = ''application/pdf''\<rparr>]\<rparr>]"
  by (simp add: run_defs handler_defs examples)

text \<open>
  Claim C6, amended. Every message handed to the mail collaborator is addressed to the
  \<^verbatim>\<open>destination_email\<close> of the tenant that the lookup returned. In the staging and the
  asynchronous handler its sender field is the fixed gateway identity
  (\<^verbatim>\<open>gateway@aquamark.io\<close>, in the asynchronous handler with the display name \<^verbatim>\<open>Aquamark\<close>),
  whatever the original sender is, and its reply-to field is the original sender's
  address. In the handler of index.js the sender field is the original sender's address
  and no reply-to is set.
\<close>

theorem outbound_addressing:
  "(\<forall>m \<in> set (sent (snd (webhook_inbound_staged w e))).
      msg_From m = Str ''gateway@aquamark.io'' \<and> msg_ReplyTo m = senderEmail e
      \<and> (\<exists>rcpt f. recipientEmail e = Str rcpt \<and> lookup_funder w (split_at_0 rcpt) = Some f
            \<and> msg_To m = destination_email f))
   \<and> (\<forall>m \<in> set (sent (snd (webhook_inbound_async w e))).
      msg_From m = Str ''Aquamark <gateway@aquamark.io>'' \<and> msg_ReplyTo m = senderEmail e
      \<and> (\<exists>rcpt f. recipientEmail e = Str rcpt \<and> lookup_funder w (split_at_0 rcpt) = Some f
            \<and> msg_To m = destination_email f))
   \<and> (\<forall>m \<in> set (sent (snd (webhook_inbound w e))).
      msg_From m = senderEmail e \<and> msg_ReplyTo m = Undefined
      \<and> (\<exists>rcpt f. recipientEmail e = Str rcpt \<and> lookup_funder w (split_at_0 rcpt) = Some f
            \<and> msg_To m = destination_email f))"
proof -
  have staged: "msg_From m = Str ''gateway@aquamark.io'' \<and> msg_ReplyTo m = senderEmail e
      \<and> (\<exists>rcpt f. recipientEmail e = Str rcpt \<and> lookup_funder w (split_at_0 rcpt) = Some f
            \<and> msg_To m = destination_email f)"
    if "m \<in> set (sent (snd (webhook_inbound_staged w e)))" for m
    using that
    by (auto simp: webhook_inbound_staged_def Let_def sent_append sent_cleanup staged_message_def
        split: jsval.splits option.splits if_splits prod.splits dest: sent_staged_loop_rule)
  have async: "msg_From m = Str ''Aquamark <gateway@aquamark.io>'' \<and> msg_ReplyTo m = senderEmail e
      \<and> (\<exists>rcpt f. recipientEmail e = Str rcpt \<and> lookup_funder w (split_at_0 rcpt) = Some f
            \<and> msg_To m = destination_email f)"
    if "m \<in> set (sent (snd (webhook_inbound_async w e)))" for m
    using that
    by (auto simp: webhook_inbound_async_def Let_def batch_message_def
        split: jsval.splits option.splits if_splits prod.splits sum.splits
        dest: sent_process_batch_rule)
  have inline: "msg_From m = senderEmail e \<and> msg_ReplyTo m = Undefined
      \<and> (\<exists>rcpt f. recipientEmail e = Str rcpt \<and> lookup_funder w (split_at_0 rcpt) = Some f
            \<and> msg_To m = destination_email f)"
    if "m \<in> set (sent (snd (webhook_inbound w e)))" for m
    using that
    by (auto simp: webhook_inbound_def Let_def sent_append inline_message_def
        split: jsval.splits option.splits if_splits prod.splits dest: sent_inline_loop_rule)
  from staged async inline show ?thesis by blast
qed

text \<open>Two complete runs in the concrete environment.\<close>

lemma staged_example_run:
  "webhook_inbound_staged example_world
     (inbound (Str ''acme@gateway.example'') [statement_pdf, ledger_pdf, notes_txt]) =
   (\<lparr>http_status = 200,
     http_body = SuccessBody ''Email processed and forwarded'' ''attachments'' 1\<rparr>,
    [DirectoryQuery ''acme'',
     StorageUpload ''funder-logos'' ''temp/1700000000000-Statement.PDF'' ''%PDF''
       ''application/pdf'' True,
     GetPublicUrl ''funder-logos'' ''temp/1700000000000-Statement.PDF'',
     WatermarkByUrl ''owner@acme.example''
       ''https://db.example/public/funder-logos/temp/1700000000000-Statement.PDF'' ''Bob Broker'',
     Download (Str ''https://api.example/out.pdf''),
     StorageUpload ''funder-logos'' ''temp/1700000000001-ledger.pdf'' ''%PDF''
       ''application/pdf'' True,
     GetPublicUrl ''funder-logos'' ''temp/1700000000001-ledger.pdf'',
     WatermarkByUrl ''owner@acme.example''
       ''https://db.example/public/funder-logos/temp/1700000000001-ledger.pdf'' ''Bob Broker'',
     StorageRemove ''funder-logos'' ''temp/1700000000000-Statement.PDF'',
     StorageRemove ''funder-logos'' ''temp/1700000000001-ledger.pdf'',
     SendEmail \<lparr>msg_From = Str ''gateway@aquamark.io'',
                msg_ReplyTo = Str ''bob@brokerage.example'', msg_To = ''ops@acme.example'',
                msg_Subject = ''New Submission - Acme Capital'',
                msg_TextBody = ''Submitted by: Bob Broker (bob@brokerage.example)'',
                msg_Attachments = [\<lparr>Name = ''Statement.PDF'', Content = Str ''JVBERg=='',
                                    ContentType = ''application/pdf''\<rparr>]\<rparr>])"
  by (simp add: run_defs handler_defs examples eval_rules)

lemma async_example_run:
  "webhook_inbound_async example_world
     (inbound (Str ''acme@gateway.example'') [statement_pdf, notes_txt, empty_pdf]) =
   (\<lparr>http_status = 200,
     http_body = SuccessBody ''Email processed and forwarded'' ''files_processed'' 2\<rparr>,
    [DirectoryQuery ''acme'',
     WatermarkBatch ''owner@acme.example'' (Str ''brokerage.example'')
       [(''Statement.PDF'', Str ''JVBERg==''), (''empty.pdf'', Str '''')],
     Sleep 2000, JobStatus ''https://api.example/job-status/job-1'',
     Sleep 2000, JobStatus ''https://api.example/job-status/job-1'',
     Sleep 2000, JobStatus ''https://api.example/job-status/job-1'',
     Download (Str ''https://api.example/job-1.zip''),
     SendEmail \<lparr>msg_From = Str ''Aquamark <gateway@aquamark.io>'',
                msg_ReplyTo = Str ''bob@brokerage.example'', msg_To = ''ops@acme.example'',
                msg_Subject = ''Deal 42'', msg_TextBody = ''See attached.'',
                msg_Attachments =
                  [\<lparr>Name = ''out/Statement.PDF'', Content = Str ''JVBERg=='',
                    ContentType = ''application/pdf''\<rparr>,
                   \<lparr>Name = ''out/ledger.pdf'', Content = Str ''JVBERg=='',
                    ContentType = ''application/pdf''\<rparr>,
                   \<lparr>Name = ''out/summary.pdf'', Content = Str ''JVBERg=='',
                    ContentType = ''application/pdf''\<rparr>]\<rparr>])"
  by (simp add: run_defs handler_defs examples eval_rules)

text \<open>Claim C6, amended, at the message of a run of the staging handler.\<close>

theorem outbound_addressing_witness:
  "sent (snd (webhook_inbound_staged example_world
       (inbound (Str ''acme@gateway.example'') [statement_pdf, ledger_pdf, notes_txt]))) \<noteq> []
   \<and> senderEmail (inbound (Str ''acme@gateway.example'') [statement_pdf, ledger_pdf, notes_txt]) =
        Str ''bob@brokerage.example''
   \<and> msg_From (hd (sent (snd (webhook_inbound_staged example_world
        (inbound (Str ''acme@gateway.example'') [statement_pdf, ledger_pdf, notes_txt]))))) =
        Str ''gateway@aquamark.io''
   \<and> msg_ReplyTo (hd (sent (snd (webhook_inbound_staged example_world
        (inbound (Str ''acme@gateway.example'') [statement_pdf, ledger_pdf, notes_txt]))))) =
        Str ''bob@brokerage.example''"
proof -
  let ?e = "inbound (Str ''acme@gateway.example'') [statement_pdf, ledger_pdf, notes_txt]"
  let ?ms = "sent (snd (webhook_inbound_staged example_world ?e))"
  have ne: "?ms \<noteq> []" by (simp add: staged_example_run)
  then have "hd ?ms \<in> set ?ms" by simp
  with outbound_addressing [of example_world ?e]
  have "msg_From (hd ?ms) = Str ''gateway@aquamark.io'' \<and> msg_ReplyTo (hd ?ms) = senderEmail ?e"
    by blast
  moreover have "senderEmail ?e = Str ''bob@brokerage.example''"
    by (simp add: handler_defs examples)
  ultimately show ?thesis using ne by simp
qed

section \<open>Eligibility of an attachment\<close>

text \<open>What the body of the staging loop does with a \<^verbatim>\<open>.pdf\<close> attachment whose content is a
  string, once storage has accepted the upload.\<close>

lemma staged_body_events:
  assumes "is_pdf (Name a)" and "Content a = Str c"
    and "upload_error w i (temp_file_name w i a) = None"
  shows "StorageUpload ''funder-logos'' (temp_file_name w i a) (base64_decode w c) (ContentType a) True
           \<in> set (snd (snd (watermark_staged w f sn i a)))
       \<and> WatermarkByUrl (user_email f) (absolute_url w (temp_file_name w i a)) sn
           \<in> set (snd (snd (watermark_staged w f sn i a)))"
  using assms
  by (auto simp: watermark_staged_def Let_def
      split: api_response.splits download_response.splits)

lemma staged_loop_events:
  "staged_loop w f sn i (map Some as) = (thrown, outs, ts, evs) \<Longrightarrow> j < length as
   \<Longrightarrow> set (snd (snd (watermark_staged w f sn (i + j) (as ! j)))) \<subseteq> set evs"
proof (induction as arbitrary: i j thrown outs ts evs)
  case Nil
  then show ?case by simp
next
  case (Cons a as)
  obtain r t evs1 where one: "watermark_staged w f sn i a = (r, t, evs1)"
    by (cases "watermark_staged w f sn i a") auto
  obtain th rs ts' evs2
    where rest: "staged_loop w f sn (Suc i) (map Some as) = (th, rs, ts', evs2)"
    by (cases "staged_loop w f sn (Suc i) (map Some as)") auto
  from Cons.prems(1) one rest have evs: "evs = evs1 @ evs2" by simp
  show ?case
  proof (cases j)
    case 0
    with one evs show ?thesis by simp
  next
    case (Suc j')
    with Cons.prems(2) have "j' < length as" by simp
    from Cons.IH [OF rest this] evs Suc show ?thesis by auto
  qed
qed

lemma staged_trace_contains:
  assumes "recipientEmail e = Str rcpt"
    and "lookup_funder w (split_at_0 rcpt) = Some f"
    and "senderName e = Some sname"
    and "Attachments e = map Some atts"
    and "i < length atts"
  shows "set (snd (snd (watermark_staged w f sname i (atts ! i))))
           \<subseteq> set (snd (webhook_inbound_staged w e))"
proof -
  obtain th outs ts evs
    where loop: "staged_loop w f sname 0 (map Some atts) = (th, outs, ts, evs)"
    by (cases "staged_loop w f sname 0 (map Some atts)") auto
  from staged_loop_not_thrown [OF loop] have th: "\<not> th" .
  from staged_loop_events [OF loop assms(5)]
  have "set (snd (snd (watermark_staged w f sname i (atts ! i)))) \<subseteq> set evs"
    by simp
  moreover from assms(5) have "atts \<noteq> []" by auto
  then have "set evs \<subseteq> set (snd (webhook_inbound_staged w e))"
    using assms(1,2,3,4) loop th
    by (auto simp: webhook_inbound_staged_def Let_def split: option.splits)
  ultimately show ?thesis by blast
qed

text \<open>
  Claim C9 says that a \<^verbatim>\<open>.pdf\<close> attachment whose decoded content is empty is never
  submitted. The attachment \<^verbatim>\<open>empty.pdf\<close> has the empty string as content, and the
  asynchronous handler submits it in the batch.
\<close>

theorem empty_content_counterexample:
  "is_pdf (Name empty_pdf) \<and> Content empty_pdf = Str ''''
   \<and> base64_decode example_world '''' = ''''
   \<and> snd (webhook_inbound_async example_world
         (inbound (Str ''acme@gateway.example'') [statement_pdf, notes_txt, empty_pdf])) ! 1 =
       WatermarkBatch ''owner@acme.example'' (Str ''brokerage.example'')
         [(''Statement.PDF'', Str ''JVBERg==''), (''empty.pdf'', Str '''')]"
  by (simp add: async_example_run) (simp add: run_defs examples)

text \<open>
  Claim C9, amended. Whether an attachment is submitted does not depend on its content.
  With the tenant resolved, a sender address present and an attachment list \<open>atts\<close> of
  attachment objects, the asynchronous handler submits every attachment whose name ends in
  \<^verbatim>\<open>.pdf\<close> (case-insensitive), in input order and with its content as received; the handler
  of index.js submits every attachment; and the staging handler uploads every \<^verbatim>\<open>.pdf\<close>
  attachment whose content is a string, empty or not, and, once storage has accepted the
  upload, submits its URL.
\<close>

theorem eligibility_by_name:
  assumes "recipientEmail e = Str rcpt"
    and "lookup_funder w (split_at_0 rcpt) = Some f"
    and "senderEmail e = Str sender"
    and "Attachments e = map Some atts"
  shows "(filter (\<lambda>att. is_pdf (Name att)) atts \<noteq> [] \<longrightarrow>
           (\<exists>evs. snd (webhook_inbound_async w e) =
              DirectoryQuery (split_at_0 rcpt)
              # WatermarkBatch (user_email f) (split_at_1 sender)
                  (map (\<lambda>att. (Name att, Content att))
                     (filter (\<lambda>att. is_pdf (Name att)) atts))
              # evs))
       \<and> filter is_watermark_call (snd (webhook_inbound w e)) =
           map (\<lambda>att. WatermarkInline (split_at_0 rcpt)
                        (publicUrl w ''gateway-logos'' (logo_storage_path f)) (split_at_1 sender)
                        (Name att) (Content att))
             atts
       \<and> (\<forall>sname i c.
            senderName e = Some sname \<longrightarrow> i < length atts \<longrightarrow>
            is_pdf (Name (atts ! i)) \<longrightarrow> Content (atts ! i) = Str c \<longrightarrow>
            upload_error w i (temp_file_name w i (atts ! i)) = None \<longrightarrow>
              StorageUpload ''funder-logos'' (temp_file_name w i (atts ! i))
                (base64_decode w c) (ContentType (atts ! i)) True
                \<in> set (snd (webhook_inbound_staged w e))
            \<and> WatermarkByUrl (user_email f)
                (absolute_url w (temp_file_name w i (atts ! i))) sname
                \<in> set (snd (webhook_inbound_staged w e)))"
proof -
  let ?pdfs = "filter (\<lambda>att. is_pdf (Name att)) atts"
  have a: "\<exists>evs. snd (webhook_inbound_async w e) =
              DirectoryQuery (split_at_0 rcpt)
              # WatermarkBatch (user_email f) (split_at_1 sender)
                  (map (\<lambda>att. (Name att, Content att)) ?pdfs)
              # evs" if ne: "?pdfs \<noteq> []"
  proof -
    from process_batch_head [of w f e "split_at_1 sender" ?pdfs]
    obtain evs where evs: "snd (process_batch w f e (split_at_1 sender) ?pdfs) =
        submit_call f (split_at_1 sender) ?pdfs # evs"
      by blast
    obtain r where r: "process_batch w f e (split_at_1 sender) ?pdfs =
        (r, submit_call f (split_at_1 sender) ?pdfs # evs)"
      using evs by (cases "process_batch w f e (split_at_1 sender) ?pdfs") simp
    from ne have ne': "atts \<noteq> []" by auto
    have "snd (webhook_inbound_async w e) =
            DirectoryQuery (split_at_0 rcpt) # submit_call f (split_at_1 sender) ?pdfs # evs"
      using assms ne ne' r
      by (cases r) (simp_all add: webhook_inbound_async_def Let_def filter_pdf_objects)
    then show ?thesis by (simp add: submit_call_def)
  qed
  have b: "filter is_watermark_call (snd (webhook_inbound w e)) =
           map (\<lambda>att. WatermarkInline (split_at_0 rcpt)
                        (publicUrl w ''gateway-logos'' (logo_storage_path f)) (split_at_1 sender)
                        (Name att) (Content att))
             atts"
    using assms(1,2,3,4) by (rule inline_calls)
  have c: "StorageUpload ''funder-logos'' (temp_file_name w i (atts ! i))
                (base64_decode w c) (ContentType (atts ! i)) True
                \<in> set (snd (webhook_inbound_staged w e))
            \<and> WatermarkByUrl (user_email f)
                (absolute_url w (temp_file_name w i (atts ! i))) sname
                \<in> set (snd (webhook_inbound_staged w e))"
    if "senderName e = Some sname" "i < length atts"
      "is_pdf (Name (atts ! i))" "Content (atts ! i) = Str c"
      "upload_error w i (temp_file_name w i (atts ! i)) = None" for sname i c
    using staged_body_events [OF that(3,4,5), of f sname]
      staged_trace_contains [OF assms(1,2) that(1) assms(4) that(2)]
    by blast
  from a b c show ?thesis by blast
qed

text \<open>Claim C9, amended, at an email with \<^verbatim>\<open>Statement.PDF\<close>, \<^verbatim>\<open>notes.txt\<close> and \<^verbatim>\<open>empty.pdf\<close>,
  the last with the empty string as content.\<close>

theorem eligibility_by_name_witness:
  "recipientEmail (inbound (Str ''acme@gateway.example'') [statement_pdf, notes_txt, empty_pdf]) =
     Str ''acme@gateway.example''
   \<and> lookup_funder example_world (split_at_0 ''acme@gateway.example'') = Some acme
   \<and> senderEmail (inbound (Str ''acme@gateway.example'') [statement_pdf, notes_txt, empty_pdf]) =
       Str ''bob@brokerage.example''
   \<and> Attachments (inbound (Str ''acme@gateway.example'') [statement_pdf, notes_txt, empty_pdf]) =
       map Some [statement_pdf, notes_txt, empty_pdf]
   \<and> filter (\<lambda>att. is_pdf (Name att)) [statement_pdf, notes_txt, empty_pdf] =
       [statement_pdf, empty_pdf]
   \<and> hd (tl (snd (webhook_inbound_async example_world
        (inbound (Str ''acme@gateway.example'') [statement_pdf, notes_txt, empty_pdf])))) =
       WatermarkBatch ''owner@acme.example'' (Str ''brokerage.example'')
         [(''Statement.PDF'', Str ''JVBERg==''), (''empty.pdf'', Str '''')]
   \<and> filter is_watermark_call (snd (webhook_inbound example_world
        (inbound (Str ''acme@gateway.example'') [statement_pdf, notes_txt, empty_pdf]))) =
       [WatermarkInline ''acme'' ''https://db.example/public/gateway-logos/acme/logo.png''
          (Str ''brokerage.example'') ''Statement.PDF'' (Str ''JVBERg==''),
        WatermarkInline ''acme'' ''https://db.example/public/gateway-logos/acme/logo.png''
          (Str ''brokerage.example'') ''notes.txt'' (Str ''aGk=''),
        WatermarkInline ''acme'' ''https://db.example/public/gateway-logos/acme/logo.png''
          (Str ''brokerage.example'') ''empty.pdf'' (Str '''')]
   \<and> StorageUpload ''funder-logos'' ''temp/1700000000002-empty.pdf'' '''' ''application/pdf'' True
       \<in> set (snd (webhook_inbound_staged example_world
        (inbound (Str ''acme@gateway.example'') [statement_pdf, notes_txt, empty_pdf])))
   \<and> WatermarkByUrl ''owner@acme.example''
         ''https://db.example/public/funder-logos/temp/1700000000002-empty.pdf'' ''Bob Broker''
       \<in> set (snd (webhook_inbound_staged example_world
        (inbound (Str ''acme@gateway.example'') [statement_pdf, notes_txt, empty_pdf])))"
proof -
  let ?e = "inbound (Str ''acme@gateway.example'') [statement_pdf, notes_txt, empty_pdf]"
  let ?atts = "[statement_pdf, notes_txt, empty_pdf]"
  have r: "recipientEmail ?e = Str ''acme@gateway.example''"
    by (simp add: handler_defs examples)
  have f: "lookup_funder example_world (split_at_0 ''acme@gateway.example'') = Some acme"
    by (simp add: handler_defs examples)
  have s: "senderEmail ?e = Str ''bob@brokerage.example''"
    by (simp add: handler_defs examples)
  have o: "Attachments ?e = map Some ?atts"
    by (simp add: inbound_def inbound_entries_def)
  have p: "filter (\<lambda>att. is_pdf (Name att)) ?atts = [statement_pdf, empty_pdf]"
    by (simp add: run_defs examples)
  have k: "split_at_0 ''acme@gateway.example'' = ''acme''"
    "split_at_1 ''bob@brokerage.example'' = Str ''brokerage.example''"
    by (simp_all add: split_at_0_def split_at_1_def)
  have v: "user_email acme = ''owner@acme.example''"
    "publicUrl example_world ''gateway-logos'' (logo_storage_path acme) =
       ''https://db.example/public/gateway-logos/acme/logo.png''"
    by (simp_all add: examples)
  have n: "senderName ?e = Some ''Bob Broker''"
    by (simp add: handler_defs examples)
  have i: "2 < length ?atts" "?atts ! 2 = empty_pdf"
    by simp_all
  have a: "is_pdf (Name (?atts ! 2))" "Content (?atts ! 2) = Str ''''"
    "ContentType (?atts ! 2) = ''application/pdf''"
    by (simp_all add: run_defs empty_pdf_def)
  have path: "temp_file_name example_world 2 (?atts ! 2) = ''temp/1700000000002-empty.pdf''"
    by (simp add: temp_file_name_def example_world_def empty_pdf_def eval_rules)
  have url: "absolute_url example_world ''temp/1700000000002-empty.pdf'' =
      ''https://db.example/public/funder-logos/temp/1700000000002-empty.pdf''"
    by (simp add: absolute_url_def startsWith_def example_world_def)
  have up: "upload_error example_world 2 (temp_file_name example_world 2 (?atts ! 2)) = None"
    by (simp add: example_world_def)
  have dec: "base64_decode example_world '''' = ''''"
    by (simp add: example_world_def)
  note staged = eligibility_by_name [OF r f s o, THEN conjunct2, THEN conjunct2, rule_format,
      OF n i(1) a(1) a(2) up]
  have st: "StorageUpload ''funder-logos'' ''temp/1700000000002-empty.pdf'' '''' ''application/pdf'' True
       \<in> set (snd (webhook_inbound_staged example_world ?e))
     \<and> WatermarkByUrl ''owner@acme.example''
         ''https://db.example/public/funder-logos/temp/1700000000002-empty.pdf'' ''Bob Broker''
       \<in> set (snd (webhook_inbound_staged example_world ?e))"
    using staged unfolding path url dec a(3) v(1) .
  from eligibility_by_name [OF r f s o]
  have "(\<exists>evs. snd (webhook_inbound_async example_world ?e) =
              DirectoryQuery ''acme''
              # WatermarkBatch ''owner@acme.example'' (Str ''brokerage.example'')
                  (map (\<lambda>att. (Name att, Content att)) [statement_pdf, empty_pdf])
              # evs)
       \<and> filter is_watermark_call (snd (webhook_inbound example_world ?e)) =
           map (\<lambda>att. WatermarkInline ''acme''
                        ''https://db.example/public/gateway-logos/acme/logo.png''
                        (Str ''brokerage.example'') (Name att) (Content att))
             [statement_pdf, notes_txt, empty_pdf]"
    unfolding k v p by simp
  then have "hd (tl (snd (webhook_inbound_async example_world ?e))) =
       WatermarkBatch ''owner@acme.example'' (Str ''brokerage.example'')
         (map (\<lambda>att. (Name att, Content att)) [statement_pdf, empty_pdf])
     \<and> filter is_watermark_call (snd (webhook_inbound example_world ?e)) =
           map (\<lambda>att. WatermarkInline ''acme''
                        ''https://db.example/public/gateway-logos/acme/logo.png''
                        (Str ''brokerage.example'') (Name att) (Content att))
             [statement_pdf, notes_txt, empty_pdf]"
    by auto
  then show ?thesis using r f s o p st
    by (simp add: statement_pdf_def notes_txt_def empty_pdf_def)
qed

section \<open>The asynchronous job: polling and unpacking\<close>

text \<open>
  What the asynchronous handler does once the batch is submitted and a job id is
  returned, in terms of the outcome of the poll loop.
\<close>

lemma async_after_poll:
  assumes "recipientEmail e = Str rcpt"
    and "lookup_funder w (split_at_0 rcpt) = Some f"
    and "senderEmail e = Str sender"
    and "filter_pdf (Attachments e) = Some pdfs"
    and "pdfs \<noteq> []"
    and "funder_api w 0 (submit_call f (split_at_1 sender) pdfs) = Body c u jobId"
    and "poll_loop w (job_status_url w jobId) 0 False Null = (pr, evs)"
  shows "webhook_inbound_async w e =
    (case pr of
       Inl m \<Rightarrow>
         (processing_failed m,
          DirectoryQuery (split_at_0 rcpt) # submit_call f (split_at_1 sender) pdfs # evs)
     | Inr (jc, dl) \<Rightarrow>
         if \<not> jc
         then (processing_failed ''Watermarking job timed out'',
               DirectoryQuery (split_at_0 rcpt) # submit_call f (split_at_1 sender) pdfs # evs)
         else
           (case fst (download_and_send w f e (length pdfs) dl) of
              Inl m \<Rightarrow> processing_failed m
            | Inr resp \<Rightarrow> resp,
            DirectoryQuery (split_at_0 rcpt) # submit_call f (split_at_1 sender) pdfs # evs
              @ snd (download_and_send w f e (length pdfs) dl)))"
proof -
  from assms(4,5) have ne: "Attachments e \<noteq> []" by auto
  show ?thesis
    using assms ne
    by (auto simp: webhook_inbound_async_def process_batch_def Let_def
        split: sum.splits prod.splits)
qed

lemma download_and_send_head:
  "\<exists>rest. snd (download_and_send w f e n dl) = Download dl # rest"
  by (auto simp: download_and_send_def Let_def
      split: download_response.splits sum.splits option.splits)

lemma no_poll_in_download_and_send:
  "filter is_status_poll (snd (download_and_send w f e n dl)) = []"
  by (auto simp: download_and_send_def Let_def
      split: download_response.splits sum.splits option.splits)

text \<open>
  Claim C7. Once the job is completed and the archive downloaded and opened, the
  attachments of the outgoing message are exactly the entries that are no directory and
  whose name ends in \<^verbatim>\<open>.pdf\<close> (case-insensitive), one each, in archive order, named after
  the entry, with content type \<^verbatim>\<open>application/pdf\<close>. When no entry qualifies the request
  fails with 500 \<^verbatim>\<open>No PDF files found in watermarked ZIP\<close> and nothing is mailed.
\<close>

theorem archive_unpacking:
  assumes "recipientEmail e = Str rcpt"
    and "lookup_funder w (split_at_0 rcpt) = Some f"
    and "senderEmail e = Str sender"
    and "filter_pdf (Attachments e) = Some pdfs"
    and "pdfs \<noteq> []"
    and "funder_api w 0 (submit_call f (split_at_1 sender) pdfs) = Body c u jobId"
    and "poll_loop w (job_status_url w jobId) 0 False Null = (Inr (True, dl), evs)"
    and "fetch_file w 0 dl = DownloadResponse True stText bytes"
    and "AdmZip w bytes = Inr zipEntries"
    and "filter (\<lambda>entry. \<not> isDirectory entry \<and> is_pdf (entryName entry)) zipEntries = eligible"
  shows "(eligible = [] \<longrightarrow>
            fst (webhook_inbound_async w e) =
              \<lparr>http_status = 500,
               http_body = ErrorBody ''Processing failed: No PDF files found in watermarked ZIP''\<rparr>
            \<and> sent (snd (webhook_inbound_async w e)) = [])
       \<and> (eligible \<noteq> [] \<longrightarrow>
            (\<exists>m. sent (snd (webhook_inbound_async w e)) = [m]
               \<and> map Name (msg_Attachments m) = map entryName eligible
               \<and> map Content (msg_Attachments m) =
                   map (\<lambda>entry. Str (base64_encode w (getData entry))) eligible
               \<and> map ContentType (msg_Attachments m) =
                   replicate (length eligible) ''application/pdf''))"
proof -
  let ?pre = "DirectoryQuery (split_at_0 rcpt) # submit_call f (split_at_1 sender) pdfs # evs"
  have run: "webhook_inbound_async w e =
      (case fst (download_and_send w f e (length pdfs) dl) of
         Inl m \<Rightarrow> processing_failed m
       | Inr resp \<Rightarrow> resp,
       ?pre @ snd (download_and_send w f e (length pdfs) dl))"
    using async_after_poll [OF assms(1-7)] by simp
  have pre: "sent ?pre = []"
    using sent_poll_loop [of w "job_status_url w jobId" 0 False Null] assms(7)
    by (simp add: sent_submit_call)
  have outs: "extract_pdfs w zipEntries =
      map (\<lambda>entry. \<lparr>Name = entryName entry, Content = Str (base64_encode w (getData entry)),
                     ContentType = ''application/pdf''\<rparr>) eligible"
    using assms(10) by (simp add: extract_pdfs_def)
  have empty: "fst (webhook_inbound_async w e) =
              \<lparr>http_status = 500,
               http_body = ErrorBody ''Processing failed: No PDF files found in watermarked ZIP''\<rparr>
            \<and> sent (snd (webhook_inbound_async w e)) = []" if "eligible = []"
  proof -
    from that outs assms(8,9)
    have "download_and_send w f e (length pdfs) dl =
            (Inl ''No PDF files found in watermarked ZIP'', [Download dl])"
      by (simp add: download_and_send_def)
    with run pre show ?thesis by (simp add: processing_failed_def sent_append sent_submit_call)
  qed
  have some: "\<exists>m. sent (snd (webhook_inbound_async w e)) = [m]
               \<and> map Name (msg_Attachments m) = map entryName eligible
               \<and> map Content (msg_Attachments m) =
                   map (\<lambda>entry. Str (base64_encode w (getData entry))) eligible
               \<and> map ContentType (msg_Attachments m) =
                   replicate (length eligible) ''application/pdf''" if "eligible \<noteq> []"
  proof -
    let ?m = "batch_message f e (extract_pdfs w zipEntries)"
    from that outs have ne: "extract_pdfs w zipEntries \<noteq> []" by simp
    with assms(8,9)
    have "snd (download_and_send w f e (length pdfs) dl) = [Download dl, SendEmail ?m]"
      by (simp add: download_and_send_def Let_def split: option.splits)
    with run pre have "sent (snd (webhook_inbound_async w e)) = [?m]"
      by (simp add: sent_append sent_submit_call)
    moreover have "map Name (msg_Attachments ?m) = map entryName eligible"
      by (simp add: batch_message_def outs comp_def)
    moreover have "map Content (msg_Attachments ?m) =
                   map (\<lambda>entry. Str (base64_encode w (getData entry))) eligible"
      by (simp add: batch_message_def outs comp_def)
    moreover have "map ContentType (msg_Attachments ?m) =
                   replicate (length eligible) ''application/pdf''"
      by (simp add: batch_message_def outs comp_def map_replicate_const)
    ultimately show ?thesis by blast
  qed
  from empty some show ?thesis by blast
qed

text \<open>Claim C7 at the archive of the concrete environment: a directory, three documents, one other file.\<close>

theorem archive_unpacking_witness:
  "recipientEmail (inbound (Str ''acme@gateway.example'') [statement_pdf, notes_txt, empty_pdf]) =
     Str ''acme@gateway.example''
   \<and> poll_loop example_world (job_status_url example_world (Str ''job-1'')) 0 False Null =
       (Inr (True, Str ''https://api.example/job-1.zip''),
        polls 3 ''https://api.example/job-status/job-1'')
   \<and> AdmZip example_world ''%PDF'' = Inr archive
   \<and> map entryName archive =
       [''out/'', ''out/Statement.PDF'', ''out/manifest.json'', ''out/ledger.pdf'', ''out/summary.pdf'']
   \<and> map Name (msg_Attachments (hd (sent (snd (webhook_inbound_async example_world
        (inbound (Str ''acme@gateway.example'') [statement_pdf, notes_txt, empty_pdf])))))) =
       [''out/Statement.PDF'', ''out/ledger.pdf'', ''out/summary.pdf'']"
proof -
  let ?e = "inbound (Str ''acme@gateway.example'') [statement_pdf, notes_txt, empty_pdf]"
  let ?dl = "Str ''https://api.example/job-1.zip''"
  have r: "recipientEmail ?e = Str ''acme@gateway.example''"
    by (simp add: handler_defs examples)
  have f: "lookup_funder example_world (split_at_0 ''acme@gateway.example'') = Some acme"
    by (simp add: handler_defs examples)
  have s: "senderEmail ?e = Str ''bob@brokerage.example''"
    by (simp add: handler_defs examples)
  have p: "filter_pdf (Attachments ?e) = Some [statement_pdf, empty_pdf]"
    by (simp add: run_defs examples)
  have ne: "[statement_pdf, empty_pdf] \<noteq> []" by simp
  have api: "funder_api example_world 0
      (submit_call acme (split_at_1 ''bob@brokerage.example'') [statement_pdf, empty_pdf]) =
      Body (Str ''V00='') (Str ''https://api.example/out.pdf'') (Str ''job-1'')"
    by (simp add: example_world_def)
  have poll: "poll_loop example_world (job_status_url example_world (Str ''job-1'')) 0 False Null =
       (Inr (True, ?dl), polls 3 ''https://api.example/job-status/job-1'')"
    by (simp add: run_defs examples eval_rules numeral_3_eq_3)
  have dl: "fetch_file example_world 0 ?dl = DownloadResponse True ''OK'' ''%PDF''"
    by (simp add: example_world_def)
  have zip: "AdmZip example_world ''%PDF'' = Inr archive"
    by (simp add: example_world_def)
  have el: "filter (\<lambda>entry. \<not> isDirectory entry \<and> is_pdf (entryName entry)) archive =
      [\<lparr>entryName = ''out/Statement.PDF'', isDirectory = False, getData = ''%PDF''\<rparr>,
       \<lparr>entryName = ''out/ledger.pdf'', isDirectory = False, getData = ''%PDF''\<rparr>,
       \<lparr>entryName = ''out/summary.pdf'', isDirectory = False, getData = ''%PDF''\<rparr>]"
    by (simp add: run_defs archive_def)
  from archive_unpacking [OF r f s p ne api poll dl zip el]
  obtain m where m: "sent (snd (webhook_inbound_async example_world ?e)) = [m]"
    "map Name (msg_Attachments m) = [''out/Statement.PDF'', ''out/ledger.pdf'', ''out/summary.pdf'']"
    by auto
  from m have "map Name (msg_Attachments (hd (sent (snd (webhook_inbound_async example_world ?e))))) =
       [''out/Statement.PDF'', ''out/ledger.pdf'', ''out/summary.pdf'']"
    by simp
  moreover have "map entryName archive =
       [''out/'', ''out/Statement.PDF'', ''out/manifest.json'', ''out/ledger.pdf'', ''out/summary.pdf'']"
    by (simp add: archive_def)
  ultimately show ?thesis using r poll zip by simp
qed

lemma polls_Suc: "polls (Suc n) url = [Sleep 2000, JobStatus url] @ polls n url"
  by (simp add: polls_def)

lemma polls_snoc: "polls n url @ [Sleep 2000, JobStatus url] = polls (Suc n) url"
  by (induction n) (simp_all add: polls_def)

lemma count_polls: "length (filter is_status_poll (polls n url)) = n"
  by (induction n) (simp_all add: polls_def)

text \<open>The loop goes round as long as the answers are neither terminal nor thrown.\<close>

lemma poll_loop_keeps:
  "(\<forall>i. a \<le> i \<and> i < a + n \<longrightarrow> keeps_polling (job_status w i url)) \<Longrightarrow> a + n \<le> 15
   \<Longrightarrow> poll_loop w url a False d =
        (fst (poll_loop w url (a + n) False d),
         polls n url @ snd (poll_loop w url (a + n) False d))"
proof (induction n arbitrary: a)
  case 0
  show ?case by (simp add: polls_def)
next
  case (Suc n)
  from Suc.prems have lt: "a < 15" and k: "keeps_polling (job_status w a url)"
    by auto
  from Suc.prems have "\<forall>i. Suc a \<le> i \<and> i < Suc a + n \<longrightarrow> keeps_polling (job_status w i url)"
    and "Suc a + n \<le> 15"
    by auto
  from Suc.IH [OF this]
  have ih: "poll_loop w url (Suc a) False d =
        (fst (poll_loop w url (Suc a + n) False d),
         polls n url @ snd (poll_loop w url (Suc a + n) False d))" .
  have "poll_loop w url a False d =
        (fst (poll_loop w url (Suc a) False d),
         [Sleep 2000, JobStatus url] @ snd (poll_loop w url (Suc a) False d))"
    using lt k by (rule poll_loop_again)
  also have "\<dots> = (fst (poll_loop w url (Suc a + n) False d),
         polls (Suc n) url @ snd (poll_loop w url (Suc a + n) False d))"
    by (subst ih, subst ih) (simp add: polls_Suc)
  finally show ?case by simp
qed

lemma poll_loop_from_start:
  assumes "\<forall>i<k. keeps_polling (job_status w i url)" and "k \<le> 15"
  shows "poll_loop w url 0 False d =
        (fst (poll_loop w url k False d), polls k url @ snd (poll_loop w url k False d))"
  using poll_loop_keeps [of 0 k w url d] assms by simp

lemma polls_in_process_batch:
  "length (filter is_status_poll (snd (process_batch w f e bd pdfs))) \<le> 15"
proof (cases "funder_api w 0 (submit_call f bd pdfs)")
  case (Rejected x)
  then show ?thesis by (simp add: process_batch_def submit_call_def)
next
  case (NotOk st t x)
  then show ?thesis by (simp add: process_batch_def submit_call_def)
next
  case (BodyUnreadable x)
  then show ?thesis by (simp add: process_batch_def submit_call_def)
next
  case (Body c u jobId)
  obtain r evs where p: "poll_loop w (job_status_url w jobId) 0 False Null = (r, evs)"
    by (cases "poll_loop w (job_status_url w jobId) 0 False Null")
  from poll_loop_trace [of 0 w "job_status_url w jobId" False Null] p
  obtain n where n: "n \<le> 15" "evs = polls n (job_status_url w jobId)"
    by auto
  have evs: "length (filter is_status_poll evs) \<le> 15"
    using n by (simp add: count_polls)
  show ?thesis
  proof (cases r)
    case (Inl m)
    with Body p evs show ?thesis by (simp add: process_batch_def submit_call_def)
  next
    case (Inr fin)
    obtain jc dl where fin: "fin = (jc, dl)" by (cases fin)
    from Body p evs Inr fin no_poll_in_download_and_send [of w f e "length pdfs" dl]
    show ?thesis
      by (cases "download_and_send w f e (length pdfs) dl")
        (simp add: process_batch_def submit_call_def Let_def)
  qed
qed

lemma polls_in_async: "length (filter is_status_poll (snd (webhook_inbound_async w e))) \<le> 15"
proof -
  have "length (filter is_status_poll evs) \<le> 15"
    if "process_batch w f e bd pdfs = (r, evs)" for f bd pdfs r evs
    using polls_in_process_batch [of w f e bd pdfs] that by simp
  then show ?thesis
    by (auto simp: webhook_inbound_async_def Let_def
        split: jsval.splits option.splits prod.splits sum.splits)
qed

text \<open>
  Claim C3. The asynchronous handler makes at most 15 status requests in a request. Once
  the batch is submitted and a job id returned, its calls are the directory query, the
  submission, then \<open>n \<le> 15\<close> rounds of a 2000 ms timer followed by a status request, then
  calls that are no status request. If the first \<open>k < 15\<close> answers are a response that is
  not ok or a status other than \<^verbatim>\<open>completed\<close> and \<^verbatim>\<open>failed\<close>, and answer \<open>k\<close> is
  \<^verbatim>\<open>completed\<close>, the loop ends after \<open>k + 1\<close> rounds and the next call is the download of
  \<^verbatim>\<open>download_url\<close>; if answer \<open>k\<close> is \<^verbatim>\<open>failed\<close>, the request fails after \<open>k + 1\<close> rounds with
  500 and \<^verbatim>\<open>Watermarking job failed:\<close> followed by the \<^verbatim>\<open>error_message\<close> of the service, and
  no further call is made. If all 15 answers are of the first kind, the request fails
  with 500 \<^verbatim>\<open>Watermarking job timed out\<close> after 15 rounds.
\<close>

theorem poll_protocol:
  assumes "recipientEmail e = Str rcpt"
    and "lookup_funder w (split_at_0 rcpt) = Some f"
    and "senderEmail e = Str sender"
    and "filter_pdf (Attachments e) = Some pdfs"
    and "pdfs \<noteq> []"
    and "funder_api w 0 (submit_call f (split_at_1 sender) pdfs) = Body c u jobId"
    and "job_status_url w jobId = url"
    and "[DirectoryQuery (split_at_0 rcpt), submit_call f (split_at_1 sender) pdfs] = start"
  shows "length (filter is_status_poll (snd (webhook_inbound_async w e))) \<le> 15
       \<and> (\<exists>n rest. n \<le> 15 \<and> snd (webhook_inbound_async w e) = start @ polls n url @ rest
             \<and> filter is_status_poll rest = [])
       \<and> (\<forall>k<15. (\<forall>i<k. keeps_polling (job_status w i url)) \<longrightarrow>
             (\<forall>dl em. job_status w k url = StatusBody (Str ''completed'') dl em \<longrightarrow>
                (\<exists>rest. snd (webhook_inbound_async w e) =
                   start @ polls (Suc k) url @ Download dl # rest))
           \<and> (\<forall>dl em. job_status w k url = StatusBody (Str ''failed'') dl em \<longrightarrow>
                webhook_inbound_async w e =
                  (\<lparr>http_status = 500,
                    http_body = ErrorBody (''Processing failed: Watermarking job failed: ''
                                            @ template em)\<rparr>,
                   start @ polls (Suc k) url)))
       \<and> ((\<forall>i<15. keeps_polling (job_status w i url)) \<longrightarrow>
             webhook_inbound_async w e =
               (\<lparr>http_status = 500,
                 http_body = ErrorBody ''Processing failed: Watermarking job timed out''\<rparr>,
                start @ polls 15 url))"
proof -
  note prelude = assms(1-6)
  have after: "webhook_inbound_async w e =
    (case pr of
       Inl m \<Rightarrow> (processing_failed m, start @ evs)
     | Inr (jc, dl) \<Rightarrow>
         if \<not> jc then (processing_failed ''Watermarking job timed out'', start @ evs)
         else
           (case fst (download_and_send w f e (length pdfs) dl) of
              Inl m \<Rightarrow> processing_failed m
            | Inr resp \<Rightarrow> resp,
            start @ evs @ snd (download_and_send w f e (length pdfs) dl)))"
    if "poll_loop w url 0 False Null = (pr, evs)" for pr evs
    using async_after_poll [OF prelude, of pr evs] that assms(7,8)
    by (auto split: sum.splits)
  have bound: "length (filter is_status_poll (snd (webhook_inbound_async w e))) \<le> 15"
    by (rule polls_in_async)
  have shape: "\<exists>n rest. n \<le> 15 \<and> snd (webhook_inbound_async w e) = start @ polls n url @ rest
             \<and> filter is_status_poll rest = []"
  proof -
    obtain pr evs where p: "poll_loop w url 0 False Null = (pr, evs)"
      by (cases "poll_loop w url 0 False Null")
    from poll_loop_trace [of 0 w url False Null] p
    obtain n where n: "n \<le> 15" "evs = polls n url"
      by auto
    have "\<exists>rest. snd (webhook_inbound_async w e) = start @ evs @ rest
             \<and> filter is_status_poll rest = []"
      using after [OF p] no_poll_in_download_and_send [of w f e "length pdfs"]
      by (auto split: sum.splits)
    with n show ?thesis by blast
  qed
  have terminal: "(\<forall>dl em. job_status w k url = StatusBody (Str ''completed'') dl em \<longrightarrow>
                (\<exists>rest. snd (webhook_inbound_async w e) =
                   start @ polls (Suc k) url @ Download dl # rest))
           \<and> (\<forall>dl em. job_status w k url = StatusBody (Str ''failed'') dl em \<longrightarrow>
                webhook_inbound_async w e =
                  (\<lparr>http_status = 500,
                    http_body = ErrorBody (''Processing failed: Watermarking job failed: ''
                                            @ template em)\<rparr>,
                   start @ polls (Suc k) url))"
    if k: "k < 15" and keeps: "\<forall>i<k. keeps_polling (job_status w i url)" for k
  proof -
    from k have k': "k \<le> 15" by simp
    note upto = poll_loop_from_start [OF keeps k', of Null]
    have completed: "\<exists>rest. snd (webhook_inbound_async w e) =
                   start @ polls (Suc k) url @ Download dl # rest"
      if st: "job_status w k url = StatusBody (Str ''completed'') dl em" for dl em
    proof -
      have "poll_loop w url 0 False Null = (Inr (True, dl), polls (Suc k) url)"
        using upto poll_loop_completed [OF k st, of Null] by (simp add: polls_snoc)
      from after [OF this] download_and_send_head [of w f e "length pdfs" dl]
      show ?thesis by auto
    qed
    have failed: "webhook_inbound_async w e =
                  (\<lparr>http_status = 500,
                    http_body = ErrorBody (''Processing failed: Watermarking job failed: ''
                                            @ template em)\<rparr>,
                   start @ polls (Suc k) url)"
      if st: "job_status w k url = StatusBody (Str ''failed'') dl em" for dl em
    proof -
      have "poll_loop w url 0 False Null =
              (Inl (''Watermarking job failed: '' @ template em), polls (Suc k) url)"
        using upto poll_loop_failed [OF k st, of Null] by (simp add: polls_snoc)
      from after [OF this] show ?thesis by (simp add: processing_failed_def)
    qed
    from completed failed show ?thesis by blast
  qed
  have timeout: "webhook_inbound_async w e =
               (\<lparr>http_status = 500,
                 http_body = ErrorBody ''Processing failed: Watermarking job timed out''\<rparr>,
                start @ polls 15 url)"
    if keeps: "\<forall>i<15. keeps_polling (job_status w i url)"
  proof -
    have "poll_loop w url 0 False Null = (Inr (False, Null), polls 15 url)"
      using poll_loop_from_start [OF keeps, of Null] poll_loop_done [of 15 False w url Null]
      by simp
    from after [OF this] show ?thesis by (simp add: processing_failed_def)
  qed
  from bound shape terminal timeout show ?thesis by blast
qed

text \<open>
  Claim C3 at a job that is pending twice and fails at the third poll, and at a job that
  is pending at all 15 polls.
\<close>

theorem poll_protocol_witness:
  "job_status failing_world 0 ''https://api.example/job-status/job-1'' =
     StatusBody (Str ''pending'') Undefined Undefined
   \<and> job_status failing_world 1 ''https://api.example/job-status/job-1'' =
     StatusBody (Str ''pending'') Undefined Undefined
   \<and> job_status failing_world 2 ''https://api.example/job-status/job-1'' =
     StatusBody (Str ''failed'') Undefined (Str ''page 3 is corrupt'')
   \<and> webhook_inbound_async failing_world (inbound (Str ''acme@gateway.example'') [statement_pdf]) =
       (\<lparr>http_status = 500,
         http_body = ErrorBody ''Processing failed: Watermarking job failed: page 3 is corrupt''\<rparr>,
        [DirectoryQuery ''acme'',
         WatermarkBatch ''owner@acme.example'' (Str ''brokerage.example'')
           [(''Statement.PDF'', Str ''JVBERg=='')]]
        @ polls 3 ''https://api.example/job-status/job-1'')
   \<and> webhook_inbound_async stalled_world (inbound (Str ''acme@gateway.example'') [statement_pdf]) =
       (\<lparr>http_status = 500,
         http_body = ErrorBody ''Processing failed: Watermarking job timed out''\<rparr>,
        [DirectoryQuery ''acme'',
         WatermarkBatch ''owner@acme.example'' (Str ''brokerage.example'')
           [(''Statement.PDF'', Str ''JVBERg=='')]]
        @ polls 15 ''https://api.example/job-status/job-1'')"
proof -
  let ?e = "inbound (Str ''acme@gateway.example'') [statement_pdf]"
  let ?url = "''https://api.example/job-status/job-1''"
  let ?start = "[DirectoryQuery ''acme'',
         WatermarkBatch ''owner@acme.example'' (Str ''brokerage.example'')
           [(''Statement.PDF'', Str ''JVBERg=='')]]"
  have r: "recipientEmail ?e = Str ''acme@gateway.example''"
    by (simp add: handler_defs examples)
  have s: "senderEmail ?e = Str ''bob@brokerage.example''"
    by (simp add: handler_defs examples)
  have p: "filter_pdf (Attachments ?e) = Some [statement_pdf]"
    by (simp add: run_defs examples)
  have ne: "[statement_pdf] \<noteq> []" by simp
  have start: "[DirectoryQuery (split_at_0 ''acme@gateway.example''),
      submit_call acme (split_at_1 ''bob@brokerage.example'') [statement_pdf]] = ?start"
    by (simp add: split_at_0_def split_at_1_def submit_call_def acme_def statement_pdf_def)
  have f1: "lookup_funder failing_world (split_at_0 ''acme@gateway.example'') = Some acme"
    by (simp add: handler_defs examples failing_world_def)
  have api1: "funder_api failing_world 0
      (submit_call acme (split_at_1 ''bob@brokerage.example'') [statement_pdf]) =
      Body (Str ''V00='') (Str ''https://api.example/out.pdf'') (Str ''job-1'')"
    by (simp add: example_world_def failing_world_def)
  have url1: "job_status_url failing_world (Str ''job-1'') = ?url"
    by (simp add: job_status_url_def example_world_def failing_world_def)
  have st1: "job_status failing_world 0 ?url = StatusBody (Str ''pending'') Undefined Undefined"
    "job_status failing_world 1 ?url = StatusBody (Str ''pending'') Undefined Undefined"
    "job_status failing_world 2 ?url = StatusBody (Str ''failed'') Undefined (Str ''page 3 is corrupt'')"
    by (simp_all add: example_world_def failing_world_def)
  have keeps1: "\<forall>i<2. keeps_polling (job_status failing_world i ?url)"
    by (simp add: example_world_def failing_world_def)
  have two: "(2::nat) < 15" by simp
  from poll_protocol [OF r f1 s p ne api1 url1 start] two keeps1 st1(3)
  have failed: "webhook_inbound_async failing_world ?e =
       (\<lparr>http_status = 500,
         http_body = ErrorBody (''Processing failed: Watermarking job failed: ''
                                  @ template (Str ''page 3 is corrupt''))\<rparr>,
        ?start @ polls (Suc 2) ?url)"
    by blast
  have f2: "lookup_funder stalled_world (split_at_0 ''acme@gateway.example'') = Some acme"
    by (simp add: handler_defs examples stalled_world_def)
  have api2: "funder_api stalled_world 0
      (submit_call acme (split_at_1 ''bob@brokerage.example'') [statement_pdf]) =
      Body (Str ''V00='') (Str ''https://api.example/out.pdf'') (Str ''job-1'')"
    by (simp add: example_world_def stalled_world_def)
  have url2: "job_status_url stalled_world (Str ''job-1'') = ?url"
    by (simp add: job_status_url_def example_world_def stalled_world_def)
  have keeps2: "\<forall>i<15. keeps_polling (job_status stalled_world i ?url)"
    by (simp add: example_world_def stalled_world_def)
  from poll_protocol [OF r f2 s p ne api2 url2 start] keeps2
  have stalled: "webhook_inbound_async stalled_world ?e =
       (\<lparr>http_status = 500,
         http_body = ErrorBody ''Processing failed: Watermarking job timed out''\<rparr>,
        ?start @ polls 15 ?url)"
    by blast
  have three: "Suc 2 = 3" by simp
  from failed stalled st1 show ?thesis
    unfolding three by simp
qed

section \<open>Partial failure in the synchronous handlers\<close>

text \<open>
  Claim C4 says that in the synchronous handlers an attachment that fails is dropped, the
  others are forwarded in one message and the caller gets the success response. The
  \<^verbatim>\<open>catch\<close> of both loop bodies is written to do that (\<^verbatim>\<open>// Continue processing other
  attachments\<close>), but the code does not: two runs in the concrete environment.

  In index.js, on the list of \<^verbatim>\<open>Statement.PDF\<close> followed by a \<^verbatim>\<open>null\<close> entry, the service
  watermarks the first attachment and the loop holds its entry; on the second entry
  \<^verbatim>\<open>attachment.Name\<close> throws, and the \<^verbatim>\<open>catch\<close>, which evaluates \<^verbatim>\<open>attachment.Name\<close> again,
  throws too. With one failure out of two the request ends with 500
  \<^verbatim>\<open>Internal server error\<close> and no message is sent.

  In the staging handler, when the download of the watermarked file is answered 404, the
  \<^verbatim>\<open>ok\<close> flag of the response is not looked at: the body of the error response is forwarded
  as the document, under the name of the attachment, and the caller gets the success
  response with one attachment. The asynchronous handler checks the flag and fails the request
  on the same answer.
\<close>

theorem failed_attachment_not_dropped:
  "funder_api example_world 0
     (WatermarkInline ''acme'' ''https://db.example/public/gateway-logos/acme/logo.png''
        (Str ''brokerage.example'') ''Statement.PDF'' (Str ''JVBERg=='')) =
     Body (Str ''V00='') (Str ''https://api.example/out.pdf'') (Str ''job-1'')
   \<and> inline_loop example_world acme ''acme'' (Str ''brokerage.example'') 0
       [Some statement_pdf, None] =
     (True,
      [\<lparr>Name = ''Statement.PDF'', Content = Str ''V00='', ContentType = ''application/pdf''\<rparr>],
      [GetPublicUrl ''gateway-logos'' ''acme/logo.png'',
       WatermarkInline ''acme'' ''https://db.example/public/gateway-logos/acme/logo.png''
         (Str ''brokerage.example'') ''Statement.PDF'' (Str ''JVBERg==''),
       GetPublicUrl ''gateway-logos'' ''acme/logo.png''])
   \<and> webhook_inbound example_world
       (inbound_entries (Str ''acme@gateway.example'') [Some statement_pdf, None]) =
     (\<lparr>http_status = 500, http_body = ErrorBody ''Internal server error''\<rparr>,
      [DirectoryQuery ''acme'',
       GetPublicUrl ''gateway-logos'' ''acme/logo.png'',
       WatermarkInline ''acme'' ''https://db.example/public/gateway-logos/acme/logo.png''
         (Str ''brokerage.example'') ''Statement.PDF'' (Str ''JVBERg==''),
       GetPublicUrl ''gateway-logos'' ''acme/logo.png''])
   \<and> fetch_file gone_world 0 (Str ''https://api.example/out.pdf'') =
     DownloadResponse False ''Not Found'' ''Not Found''
   \<and> webhook_inbound_staged gone_world (inbound (Str ''acme@gateway.example'') [statement_pdf]) =
     (\<lparr>http_status = 200,
       http_body = SuccessBody ''Email processed and forwarded'' ''attachments'' 1\<rparr>,
      [DirectoryQuery ''acme'',
       StorageUpload ''funder-logos'' ''temp/1700000000000-Statement.PDF'' ''%PDF''
         ''application/pdf'' True,
       GetPublicUrl ''funder-logos'' ''temp/1700000000000-Statement.PDF'',
       WatermarkByUrl ''owner@acme.example''
         ''https://db.example/public/funder-logos/temp/1700000000000-Statement.PDF'' ''Bob Broker'',
       Download (Str ''https://api.example/out.pdf''),
       StorageRemove ''funder-logos'' ''temp/1700000000000-Statement.PDF'',
       SendEmail \<lparr>msg_From = Str ''gateway@aquamark.io'',
                  msg_ReplyTo = Str ''bob@brokerage.example'', msg_To = ''ops@acme.example'',
                  msg_Subject = ''New Submission - Acme Capital'',
                  msg_TextBody = ''Submitted by: Bob Broker (bob@brokerage.example)'',
                  msg_Attachments = [\<lparr>Name = ''Statement.PDF'', Content = Str ''Tm90IEZvdW5k'',
                                      ContentType = ''application/pdf''\<rparr>]\<rparr>])
   \<and> webhook_inbound_async gone_world (inbound (Str ''acme@gateway.example'') [statement_pdf]) =
     (\<lparr>http_status = 500,
       http_body = ErrorBody
         ''Processing failed: Failed to download watermarked file: Not Found''\<rparr>,
      [DirectoryQuery ''acme'',
       WatermarkBatch ''owner@acme.example'' (Str ''brokerage.example'')
         [(''Statement.PDF'', Str ''JVBERg=='')],
       Sleep 2000, JobStatus ''https://api.example/job-status/job-1'',
       Sleep 2000, JobStatus ''https://api.example/job-status/job-1'',
       Sleep 2000, JobStatus ''https://api.example/job-status/job-1'',
       Download (Str ''https://api.example/job-1.zip'')])"
proof (intro conjI)
  show "funder_api example_world 0
     (WatermarkInline ''acme'' ''https://db.example/public/gateway-logos/acme/logo.png''
        (Str ''brokerage.example'') ''Statement.PDF'' (Str ''JVBERg=='')) =
     Body (Str ''V00='') (Str ''https://api.example/out.pdf'') (Str ''job-1'')"
    by (simp add: example_world_def)
  show "fetch_file gone_world 0 (Str ''https://api.example/out.pdf'') =
     DownloadResponse False ''Not Found'' ''Not Found''"
    by (simp add: gone_world_def)
qed (simp_all add: run_defs handler_defs examples gone_world_def eval_rules)

section \<open>Removal of the staged objects\<close>

lemma uploaded_append: "uploaded (xs @ ys) = uploaded xs @ uploaded ys"
  by (induction xs rule: uploaded.induct) auto

lemma removed_append: "removed (xs @ ys) = removed xs @ removed ys"
  by (induction xs rule: removed.induct) auto

lemma storage_watermark_staged:
  "watermark_staged w f sn i a = (r, t, evs)
   \<Longrightarrow> uploaded evs = (case t of None \<Rightarrow> [] | Some p \<Rightarrow> [(''funder-logos'', p)]) \<and> removed evs = []"
  by (auto simp: watermark_staged_def Let_def
      split: if_splits jsval.splits option.splits api_response.splits download_response.splits)

text \<open>The accepted uploads of the loop are the names on \<^verbatim>\<open>tempFiles\<close>, and the loop removes
  nothing, whether or not an error leaves it.\<close>

lemma storage_staged_loop:
  "staged_loop w f sn i as = (thrown, outs, ts, evs)
   \<Longrightarrow> uploaded evs = map (Pair ''funder-logos'') ts \<and> removed evs = []"
proof (induction as arbitrary: i thrown outs ts evs)
  case Nil
  then show ?case by simp
next
  case (Cons entry as)
  show ?case
  proof (cases entry)
    case None
    with Cons.prems show ?thesis by simp
  next
    case (Some a)
    obtain r t evs1 where one: "watermark_staged w f sn i a = (r, t, evs1)"
      by (cases "watermark_staged w f sn i a") auto
    obtain th rs ts' evs2 where rest: "staged_loop w f sn (Suc i) as = (th, rs, ts', evs2)"
      by (cases "staged_loop w f sn (Suc i) as") auto
    from Cons.prems Some one rest
    have ts: "ts = (case t of None \<Rightarrow> ts' | Some p \<Rightarrow> p # ts')" and evs: "evs = evs1 @ evs2"
      by simp_all
    from storage_watermark_staged [OF one] Cons.IH [OF rest] ts evs
    show ?thesis by (cases t) (simp_all add: uploaded_append removed_append)
  qed
qed

lemma storage_cleanup:
  "uploaded (cleanup ts) = [] \<and> removed (cleanup ts) = map (Pair ''funder-logos'') ts"
  by (induction ts) (auto simp: cleanup_def)

lemma upload_in_uploaded:
  "i < length evs \<Longrightarrow> evs ! i = StorageUpload b p buf ct True \<Longrightarrow> (b, p) \<in> set (uploaded evs)"
proof (induction evs arbitrary: i rule: uploaded.induct)
  case 1
  then show ?case by simp
next
  case (2 bucket path buf' ct' evs)
  then show ?case by (cases i) auto
qed (auto simp: nth_Cons split: nat.splits)

text \<open>A sequence that ends in the removal of everything uploaded before it.\<close>

lemma removed_later_cleanup:
  assumes up: "uploaded pre = map (Pair ''funder-logos'') ts" and post: "uploaded post = []"
  shows "removed_later (pre @ cleanup ts @ post)"
  unfolding removed_later_def
proof (intro allI impI)
  fix i b p buf ct
  let ?tr = "pre @ cleanup ts @ post"
  assume i: "i < length ?tr" and at: "?tr ! i = StorageUpload b p buf ct True"
  have no_late: "(cleanup ts @ post) ! n \<noteq> StorageUpload b p buf ct True"
    if "n < length (cleanup ts @ post)" for n
  proof
    assume "(cleanup ts @ post) ! n = StorageUpload b p buf ct True"
    from upload_in_uploaded [OF that this] storage_cleanup [of ts] post
    show False by (simp add: uploaded_append)
  qed
  have early: "i < length pre"
  proof (rule ccontr)
    assume "\<not> i < length pre"
    with i at have "(cleanup ts @ post) ! (i - length pre) = StorageUpload b p buf ct True"
      and "i - length pre < length (cleanup ts @ post)"
      by (auto simp: nth_append)
    with no_late show False by blast
  qed
  with at have "pre ! i = StorageUpload b p buf ct True"
    by (simp add: nth_append)
  from upload_in_uploaded [OF early this] up
  have b: "b = ''funder-logos''" and "p \<in> set ts"
    by auto
  then obtain n where n: "n < length ts" "ts ! n = p"
    by (auto simp: in_set_conv_nth)
  let ?j = "length pre + n"
  have "?tr ! ?j = StorageRemove b p"
    using n b by (simp add: nth_append cleanup_def)
  moreover have "i < ?j" using early by simp
  moreover have "?j < length ?tr" using n by (simp add: cleanup_def)
  ultimately show "\<exists>j. i < j \<and> j < length ?tr \<and> ?tr ! j = StorageRemove b p"
    by blast
qed

lemma removed_later_plain: "uploaded tr = [] \<Longrightarrow> removed_later tr"
  using removed_later_cleanup [of tr "[]" "[]"] by (simp add: cleanup_def)

lemma removed_later_staged:
  assumes "staged_loop w f sn i as = (thrown, outs, ts, evs)"
  shows "removed_later (DirectoryQuery k # evs @ cleanup ts)"
    and "removed_later (DirectoryQuery k # evs @ cleanup ts @ [SendEmail m])"
proof -
  from storage_staged_loop [OF assms]
  have up: "uploaded (DirectoryQuery k # evs) = map (Pair ''funder-logos'') ts"
    by simp
  from removed_later_cleanup [OF up, of "[]"]
  show "removed_later (DirectoryQuery k # evs @ cleanup ts)" by simp
  from removed_later_cleanup [OF up, of "[SendEmail m]"]
  show "removed_later (DirectoryQuery k # evs @ cleanup ts @ [SendEmail m])" by simp
qed

text \<open>
  When every entry of the attachment list is an attachment object, no error leaves the
  loop and the clean-up loop runs: every upload that storage accepted is followed by a
  removal of the same path, and the removals are exactly the accepted uploads, in order.
\<close>

lemma objects_removed_when_loop_ends:
  assumes "Attachments e = map Some atts"
  shows "removed_later (snd (webhook_inbound_staged w e))"
    and "removed (snd (webhook_inbound_staged w e)) = uploaded (snd (webhook_inbound_staged w e))"
proof -
  show "removed_later (snd (webhook_inbound_staged w e))"
    using assms
    by (auto simp: webhook_inbound_staged_def Let_def removed_later_plain
        split: jsval.splits option.splits prod.splits
        dest: staged_loop_not_thrown intro: removed_later_staged)
  show "removed (snd (webhook_inbound_staged w e)) = uploaded (snd (webhook_inbound_staged w e))"
    using assms
    by (auto simp: webhook_inbound_staged_def Let_def uploaded_append removed_append storage_cleanup
        split: jsval.splits option.splits prod.splits
        dest: staged_loop_not_thrown storage_staged_loop)
qed

text \<open>When an error leaves the loop, the request removes nothing.\<close>

lemma nothing_removed_when_loop_throws:
  assumes "recipientEmail e = Str rcpt"
    and "lookup_funder w (split_at_0 rcpt) = Some f"
    and "senderName e = Some sname"
    and "staged_loop w f sname 0 (Attachments e) = (True, outs, ts, evs)"
  shows "webhook_inbound_staged w e =
           (\<lparr>http_status = 500, http_body = ErrorBody ''Internal server error''\<rparr>,
            DirectoryQuery (split_at_0 rcpt) # evs)"
    and "removed (snd (webhook_inbound_staged w e)) = []"
    and "uploaded (snd (webhook_inbound_staged w e)) = map (Pair ''funder-logos'') ts"
proof -
  from assms(4) have ne: "Attachments e \<noteq> []" by auto
  show run: "webhook_inbound_staged w e =
           (\<lparr>http_status = 500, http_body = ErrorBody ''Internal server error''\<rparr>,
            DirectoryQuery (split_at_0 rcpt) # evs)"
    using assms ne by (simp add: webhook_inbound_staged_def internal_server_error_def)
  from storage_staged_loop [OF assms(4)] run
  show "removed (snd (webhook_inbound_staged w e)) = []"
    and "uploaded (snd (webhook_inbound_staged w e)) = map (Pair ''funder-logos'') ts"
    by simp_all
qed

text \<open>
  Claim C5 says that every temporary object uploaded during a request is removed before
  the request ends, on the success and on the failure path. The clean-up loop is ordinary
  code after the \<^verbatim>\<open>for\<close> loop, and the code does not reach it when an error leaves the \<^verbatim>\<open>for\<close>
  loop. On the list of \<^verbatim>\<open>Statement.PDF\<close> followed by a \<^verbatim>\<open>null\<close> entry, storage accepts the upload
  of the first attachment, which is watermarked and downloaded; on the second entry
  \<^verbatim>\<open>attachment.Name\<close> throws, and the \<^verbatim>\<open>catch\<close> of the loop body, which evaluates
  \<^verbatim>\<open>attachment.Name\<close> again, throws too. The request ends with 500 \<^verbatim>\<open>Internal server error\<close>,
  and its calls hold one accepted upload and no removal.
\<close>

theorem staged_object_left_behind:
  "staged_loop example_world acme ''Bob Broker'' 0 [Some statement_pdf, None] =
     (True,
      [\<lparr>Name = ''Statement.PDF'', Content = Str ''JVBERg=='', ContentType = ''application/pdf''\<rparr>],
      [''temp/1700000000000-Statement.PDF''],
      [StorageUpload ''funder-logos'' ''temp/1700000000000-Statement.PDF'' ''%PDF''
         ''application/pdf'' True,
       GetPublicUrl ''funder-logos'' ''temp/1700000000000-Statement.PDF'',
       WatermarkByUrl ''owner@acme.example''
         ''https://db.example/public/funder-logos/temp/1700000000000-Statement.PDF'' ''Bob Broker'',
       Download (Str ''https://api.example/out.pdf'')])
   \<and> webhook_inbound_staged example_world
       (inbound_entries (Str ''acme@gateway.example'') [Some statement_pdf, None]) =
     (\<lparr>http_status = 500, http_body = ErrorBody ''Internal server error''\<rparr>,
      [DirectoryQuery ''acme'',
       StorageUpload ''funder-logos'' ''temp/1700000000000-Statement.PDF'' ''%PDF''
         ''application/pdf'' True,
       GetPublicUrl ''funder-logos'' ''temp/1700000000000-Statement.PDF'',
       WatermarkByUrl ''owner@acme.example''
         ''https://db.example/public/funder-logos/temp/1700000000000-Statement.PDF'' ''Bob Broker'',
       Download (Str ''https://api.example/out.pdf'')])
   \<and> uploaded (snd (webhook_inbound_staged example_world
         (inbound_entries (Str ''acme@gateway.example'') [Some statement_pdf, None]))) =
       [(''funder-logos'', ''temp/1700000000000-Statement.PDF'')]
   \<and> removed (snd (webhook_inbound_staged example_world
         (inbound_entries (Str ''acme@gateway.example'') [Some statement_pdf, None]))) = []"
  by (simp add: run_defs handler_defs examples eval_rules)

end
